theory Spec2Isabelle
  imports Complex_Main "HOL-Library.AList" "HOL-Library.Sublist"
begin

section \<open>Data model of \<open>pytorch3d/implicitron/eval_demo.py\<close>\<close>

text \<open>
  The driver is orchestration over library calls.  The calls into libraries whose code
  is not part of the driver (the dataset classes, the DBIR model, the metric functions)
  are fields of the record \<open>externals\<close>; the driver itself, its branches, its loops and
  every exception its own statements can raise are written out.  A library call is
  taken to return; what it returns is not constrained.  What the driver does to the
  outside is recorded as a list of events, in program order.  The progress bar
  \<open>tqdm\<close> passes the batches of the dataloader through unchanged and is left out.
\<close>

datatype Task = SINGLE_SEQUENCE | MULTI_SEQUENCE

datatype error =
    KeyError string
  | IndexError string
  | ValueError string
  | FileNotFoundError "string list"
  | IsADirectoryError "string list"

datatype device = CPU | CUDA

typedecl PathManager

type_synonym color = "real \<times> real \<times> real"

text \<open>The dictionary \<open>dataset_map_provider_args\<close> of lines 105-114, one field per key.\<close>

record JsonIndexDatasetMapProvider_args =
  category :: string
  dataset_root :: string
  assert_single_seq :: bool
  task_str :: string
  test_on_train :: bool
  load_point_clouds :: bool
  test_restrict_sequence_id :: int
  path_manager :: "PathManager option"

text \<open>
  A \<open>FrameData\<close> holds the batched fields of its frames.  The driver reads two of them,
  \<open>frame_type\<close> and \<open>camera\<close>; a \<open>FrameData\<close> is modelled as the list of its frames,
  so that \<open>FrameData.collate\<close> of single frames is the list of these frames.
\<close>

record 'c frame =
  frame_type :: string
  camera :: 'c

type_synonym 'c FrameData = "'c frame list"

definition collate :: "'c frame list \<Rightarrow> 'c FrameData" where
  "collate frames = frames"

text \<open>
  The test dataset, with the attributes and methods the driver uses:
  \<open>frame_annots\<close> (of each entry only \<open>["frame_annotation"].sequence_name\<close> is read),
  \<open>image_width\<close>, \<open>sequence_indices_in_order\<close> and \<open>__getitem__\<close>
  (\<open>None\<close> when the dataset raises for the index).
\<close>

record 'c ImplicitronDataset =
  frame_annots :: "string list"
  image_width :: "int option"
  sequence_indices_in_order :: "string \<Rightarrow> nat list"
  getitem :: "nat \<Rightarrow> 'c frame option"

text \<open>\<open>datasets.test\<close> and \<open>dataloaders.test\<close>; a dataloader is the finite sequence of
  batches it yields.\<close>

record 'c DatasetMap =
  datasets_test :: "'c ImplicitronDataset option"

record 'c Dataloaders =
  dataloaders_test :: "'c FrameData list option"

record ModelDBIR =
  render_image_width :: int
  render_image_height :: int
  bg_color :: color
  max_points :: int
  model_device :: device

record LPIPS =
  net :: string
  lpips_device :: device

text \<open>The constructors \<open>ModelDBIR(...)\<close> and \<open>lpips.LPIPS(net=...)\<close> build a module on
  the CPU; \<open>.cuda()\<close> moves it.\<close>

definition ModelDBIR_new :: "int \<Rightarrow> int \<Rightarrow> color \<Rightarrow> int \<Rightarrow> ModelDBIR" where
  "ModelDBIR_new w h bg n =
     \<lparr>render_image_width = w, render_image_height = h, bg_color = bg, max_points = n,
      model_device = CPU\<rparr>"

definition ModelDBIR_to_cuda :: "ModelDBIR \<Rightarrow> ModelDBIR" where
  "ModelDBIR_to_cuda m = m\<lparr>model_device := CUDA\<rparr>"

definition LPIPS_new :: "string \<Rightarrow> LPIPS" where
  "LPIPS_new n = \<lparr>net = n, lpips_device = CPU\<rparr>"

definition LPIPS_to_cuda :: "LPIPS \<Rightarrow> LPIPS" where
  "LPIPS_to_cuda l = l\<lparr>lpips_device := CUDA\<rparr>"

datatype ('c, 'p, 'b, 'r) event =
    Manual_seed int
  | DataSource_init JsonIndexDatasetMapProvider_args
  | Get_datasets_and_dataloaders
  | ModelDBIR_init ModelDBIR
  | ModelDBIR_cuda
  | LPIPS_init LPIPS
  | LPIPS_cuda
  | Print string
  | To_cuda "'c FrameData"
  | Model_call ModelDBIR "'c FrameData"
  | Eval_batch "'c FrameData" 'p color LPIPS "'c list option" 'b
  | Summarize "'b list" Task
  | Pretty_print 'r
  | Aggregate "'r list"
  | Call_evaluate string Task "int option"
  | Return_evaluate 'r

text \<open>
  The library calls and the process environment.  \<open>'g\<close> is the state of torch's global
  random number generator: the calls that may draw from it take the state and return
  the next one.  \<open>manual_seed\<close> gives the generator state that a seed determines.
  \<open>Task_value\<close> is \<open>task.value\<close> and \<open>Task_format\<close> is how an f-string renders a task;
  the enum is declared in \<open>data_source.py\<close>.
\<close>

record ('g, 'c, 'p, 'b, 'r) externals =
  environ :: "string \<rightharpoonup> string"
  CO3D_CATEGORIES :: "string list"
  Task_value :: "Task \<Rightarrow> string"
  Task_format :: "Task \<Rightarrow> string"
  manual_seed :: "int \<Rightarrow> 'g"
  get_datasets_and_dataloaders ::
    "JsonIndexDatasetMapProvider_args \<Rightarrow> 'g \<Rightarrow> ('c DatasetMap \<times> 'c Dataloaders) \<times> 'g"
  is_known_frame :: "string list \<Rightarrow> bool list"
  dataclass_to_cuda :: "'c FrameData \<Rightarrow> 'c FrameData"
  model_forward :: "ModelDBIR \<Rightarrow> 'c FrameData \<Rightarrow> 'g \<Rightarrow> (string \<rightharpoonup> 'p) \<times> 'g"
  eval_batch ::
    "'c FrameData \<Rightarrow> 'p \<Rightarrow> color \<Rightarrow> LPIPS \<Rightarrow> 'c list option \<Rightarrow> 'g \<Rightarrow> 'b \<times> 'g"
  summarize_nvs_eval_results :: "'b list \<Rightarrow> Task \<Rightarrow> 'r \<times> (string \<rightharpoonup> 'r)"
  aggregate_nvs_results :: "'r list \<Rightarrow> 'r"

section \<open>\<open>_get_all_source_cameras\<close> (lines 190-217)\<close>

text \<open>
  \<open>torch.utils.data.Subset\<close> and \<open>DataLoader\<close> with \<open>shuffle=False\<close>: the items
  are fetched in the order of the indices and cut into batches of \<open>batch_size\<close>, the last
  one possibly shorter; a batch size of zero is refused with a \<open>ValueError\<close>.
\<close>

fun fetch :: "(nat \<Rightarrow> 'a option) \<Rightarrow> nat list \<Rightarrow> error + 'a list" where
  "fetch gi [] = Inr []"
| "fetch gi (i # idx) =
     (case gi i of
        None \<Rightarrow> Inl (IndexError ''dataset index out of range'')
      | Some x \<Rightarrow> (case fetch gi idx of Inl e \<Rightarrow> Inl e | Inr xs \<Rightarrow> Inr (x # xs)))"

function batches :: "nat \<Rightarrow> 'a list \<Rightarrow> 'a list list" where
  "batches n xs = (if n = 0 \<or> xs = [] then [] else take n xs # batches n (drop n xs))"
  by pat_completeness auto
termination
  by (relation "measure (\<lambda>(n, xs). length xs)") auto

declare batches.simps [simp del]

definition DataLoader ::
  "(nat \<Rightarrow> 'c frame option) \<Rightarrow> nat list \<Rightarrow> nat \<Rightarrow> error + 'c FrameData list" where
  "DataLoader gi idx batch_size =
     (if batch_size = 0
      then Inl (ValueError ''batch_size should be a positive integer value, but got batch_size=0'')
      else case fetch gi idx of
             Inl e \<Rightarrow> Inl e
           | Inr items \<Rightarrow> Inr (map collate (batches batch_size items)))"

text \<open>\<open>torch.where(flags)[0]\<close>: the positions of the true entries, ascending.\<close>

definition torch_where :: "bool list \<Rightarrow> nat list" where
  "torch_where flags = filter (\<lambda>i. flags ! i) [0..<length flags]"

text \<open>Indexing a batch of cameras by a list of positions; a position past the end raises.\<close>

definition cameras_getitem :: "'c list \<Rightarrow> nat list \<Rightarrow> error + 'c list" where
  "cameras_getitem cams idx =
     (if list_all (\<lambda>i. i < length cams) idx then Inr (map (\<lambda>i. cams ! i) idx)
      else Inl (IndexError ''index out of bounds''))"

definition get_all_source_cameras ::
  "('g, 'c, 'p, 'b, 'r) externals \<Rightarrow> 'c ImplicitronDataset \<Rightarrow> string \<Rightarrow> int
     \<Rightarrow> error + 'c list" where
  "get_all_source_cameras ext dataset sequence_name num_workers =
     (let seq_idx = sequence_indices_in_order dataset sequence_name in
      case DataLoader (getitem dataset) seq_idx (length seq_idx) of
        Inl e \<Rightarrow> Inl e
      | Inr loaded \<Rightarrow>
          (case loaded of
             [] \<Rightarrow> Inl (ValueError ''not enough values to unpack (expected 1, got 0)'')
           | [all_frame_data] \<Rightarrow>
               (let is_known = is_known_frame ext (map frame_type all_frame_data)
                in cameras_getitem (map camera all_frame_data) (torch_where is_known))
           | _ \<Rightarrow> Inl (ValueError ''too many values to unpack (expected 1)'')))"

section \<open>\<open>evaluate_dbir_for_category\<close> (lines 77-174)\<close>

text \<open>Lines 101 and 105-114: the id \<open>-1\<close> stands for no restriction; the dictionary
  display reads \<open>os.environ\<close>, which raises \<open>KeyError\<close> for a missing variable.\<close>

definition dataset_map_provider_args ::
  "('g, 'c, 'p, 'b, 'r) externals \<Rightarrow> string \<Rightarrow> Task \<Rightarrow> int option \<Rightarrow> PathManager option
     \<Rightarrow> error + JsonIndexDatasetMapProvider_args" where
  "dataset_map_provider_args ext cat task single_sequence_id pm =
     (let sid = (case single_sequence_id of Some i \<Rightarrow> i | None \<Rightarrow> - 1) in
      case environ ext ''CO3D_DATASET_ROOT'' of
        None \<Rightarrow> Inl (KeyError ''CO3D_DATASET_ROOT'')
      | Some root_dir \<Rightarrow>
          Inr \<lparr>category = cat, dataset_root = root_dir,
               assert_single_seq = (task = SINGLE_SEQUENCE),
               task_str = Task_value ext task,
               test_on_train = False, load_point_clouds = True,
               test_restrict_sequence_id = sid, path_manager = pm\<rparr>)"

text \<open>Lines 157-168: the loop over the batches of the test dataloader.  It returns the
  events of the iterations, the generator state and the list \<open>per_batch_eval_results\<close>.\<close>

fun eval_loop ::
  "('g, 'c, 'p, 'b, 'r) externals \<Rightarrow> ModelDBIR \<Rightarrow> LPIPS \<Rightarrow> color \<Rightarrow> 'c list option
     \<Rightarrow> 'c FrameData list \<Rightarrow> 'b list \<Rightarrow> 'g
     \<Rightarrow> ('c, 'p, 'b, 'r) event list \<times> 'g \<times> (error + 'b list)" where
  "eval_loop ext model lpips_model bg cams [] per_batch g = ([], g, Inr per_batch)"
| "eval_loop ext model lpips_model bg cams (frame_data # rest) per_batch g =
     (let fd = dataclass_to_cuda ext frame_data in
      case model_forward ext model fd g of
        (preds, g1) \<Rightarrow>
          (case preds ''implicitron_render'' of
             None \<Rightarrow>
               ([To_cuda frame_data, Model_call model fd], g1,
                Inl (KeyError ''implicitron_render''))
           | Some render \<Rightarrow>
               (case eval_batch ext fd render bg lpips_model cams g1 of
                  (res, g2) \<Rightarrow>
                    (case eval_loop ext model lpips_model bg cams rest (per_batch @ [res]) g2 of
                       (evs, g3, out) \<Rightarrow>
                         ([To_cuda frame_data, Model_call model fd,
                           Eval_batch fd render bg lpips_model cams res] @ evs, g3, out)))))"

text \<open>Lines 126-135: the source cameras, loaded for the single-sequence task only.\<close>

definition all_source_cameras_of ::
  "('g, 'c, 'p, 'b, 'r) externals \<Rightarrow> Task \<Rightarrow> 'c ImplicitronDataset \<Rightarrow> int
     \<Rightarrow> error + 'c list option" where
  "all_source_cameras_of ext task test_dataset num_workers =
     (if task = SINGLE_SEQUENCE then
        (case frame_annots test_dataset of
           [] \<Rightarrow> Inl (IndexError ''list index out of range'')
         | sequence_name # _ \<Rightarrow>
             (case get_all_source_cameras ext test_dataset sequence_name num_workers of
                Inl e \<Rightarrow> Inl e
              | Inr cams \<Rightarrow> Inr (Some cams)))
      else Inr None)"

definition evaluate_dbir_for_category ::
  "('g, 'c, 'p, 'b, 'r) externals \<Rightarrow> string \<Rightarrow> Task \<Rightarrow> color \<Rightarrow> int option \<Rightarrow> int
     \<Rightarrow> PathManager option \<Rightarrow> 'g
     \<Rightarrow> ('c, 'p, 'b, 'r) event list \<times> 'g \<times> (error + 'r)" where
  "evaluate_dbir_for_category ext cat task bg single_sequence_id num_workers pm g0 =
     (let g1 = manual_seed ext 42 in
      case dataset_map_provider_args ext cat task single_sequence_id pm of
        Inl e \<Rightarrow> ([Manual_seed 42], g1, Inl e)
      | Inr args \<Rightarrow>
          (case get_datasets_and_dataloaders ext args g1 of
             ((datasets, dataloaders), g2) \<Rightarrow>
               (let tr2 = [Manual_seed 42, DataSource_init args, Get_datasets_and_dataloaders] in
                case datasets_test datasets of
                  None \<Rightarrow> (tr2, g2, Inl (ValueError ''must have a test dataset.''))
                | Some test_dataset \<Rightarrow>
                    (case dataloaders_test dataloaders of
                       None \<Rightarrow> (tr2, g2, Inl (ValueError ''must have a test dataset.''))
                     | Some test_dataloader \<Rightarrow>
                         (case all_source_cameras_of ext task test_dataset num_workers of
                            Inl e \<Rightarrow> (tr2, g2, Inl e)
                          | Inr all_source_cameras \<Rightarrow>
                              (case image_width test_dataset of
                                 None \<Rightarrow>
                                   (tr2, g2,
                                    Inl (ValueError ''Image size should be set in the dataset''))
                               | Some image_size \<Rightarrow>
                                   (let model0 = ModelDBIR_new image_size image_size bg 100000;
                                        model = ModelDBIR_to_cuda model0;
                                        lpips0 = LPIPS_new ''vgg'';
                                        lpips_model = LPIPS_to_cuda lpips0;
                                        tr3 = tr2 @ [ModelDBIR_init model0, ModelDBIR_cuda,
                                                     LPIPS_init lpips0, LPIPS_cuda,
                                                     Print ''Evaluating DBIR model ...'']
                                    in case eval_loop ext model lpips_model bg all_source_cameras
                                              test_dataloader [] g2 of
                                         (evs, g3, Inl e) \<Rightarrow> (tr3 @ evs, g3, Inl e)
                                       | (evs, g3, Inr per_batch_eval_results) \<Rightarrow>
                                           (case summarize_nvs_eval_results ext
                                                   per_batch_eval_results task of
                                              (category_result_flat, category_result) \<Rightarrow>
                                                (let tr4 = tr3 @ evs @
                                                       [Summarize per_batch_eval_results task]
                                                 in case category_result ''results'' of
                                                      None \<Rightarrow> (tr4, g3, Inl (KeyError ''results''))
                                                    | Some r \<Rightarrow> (tr4, g3, Inr r))))))))))"

section \<open>\<open>main\<close> and \<open>_print_aggregate_results\<close> (lines 33-74, 177-187)\<close>

text \<open>\<open>task_results\<close> is a dictionary from tasks to lists of results; a dictionary keeps
  its keys in insertion order, so it is an association list: \<open>d[k] = v\<close> is
  \<open>AList.update k v d\<close> and \<open>d[k]\<close> is \<open>map_of d k\<close>, a \<open>KeyError\<close> when absent.\<close>

type_synonym 'r task_results = "(Task \<times> 'r list) list"

text \<open>\<open>str\<close> of an integer, as an f-string renders it.\<close>

fun str_nat :: "nat \<Rightarrow> string" where
  "str_nat n = (if n < 10 then [''0123456789'' ! n]
                else str_nat (n div 10) @ [''0123456789'' ! (n mod 10)])"

declare str_nat.simps [simp del]

definition str_int :: "int \<Rightarrow> string" where
  "str_int i = (if i < 0 then ''-'' @ str_nat (nat (- i)) else str_nat (nat i))"

text \<open>The defaults of the parameters \<open>bg_color\<close> and \<open>num_workers\<close> (lines 80 and 82).\<close>

definition default_bg_color :: color where
  "default_bg_color = (0, 0, 0)"

definition default_num_workers :: int where
  "default_num_workers = 16"

definition print_aggregate_results ::
  "('g, 'c, 'p, 'b, 'r) externals \<Rightarrow> Task \<Rightarrow> 'r task_results
     \<Rightarrow> error + ('c, 'p, 'b, 'r) event list" where
  "print_aggregate_results ext task task_results =
     (case map_of task_results task of
        None \<Rightarrow> Inl (KeyError (Task_format ext task))
      | Some results \<Rightarrow>
          Inr [Aggregate results,
               Print '''',
               Print (''Aggregate results for task='' @ Task_format ext task @ '':''),
               Pretty_print (aggregate_nvs_results ext results),
               Print ''''])"

text \<open>The state of \<open>main\<close>: the events so far, the generator state and \<open>task_results\<close>.
  A run of \<open>main\<close>, or of one of its loops, ends with \<open>task_results\<close> or with the
  exception that ended it; the events up to there are kept in both cases.\<close>

type_synonym ('g, 'c, 'p, 'b, 'r) main_state =
  "('c, 'p, 'b, 'r) event list \<times> 'g \<times> 'r task_results"

type_synonym ('g, 'c, 'p, 'b, 'r) main_run =
  "('c, 'p, 'b, 'r) event list \<times> 'g \<times> (error + 'r task_results)"

definition results_header :: "string \<Rightarrow> string \<Rightarrow> int option \<Rightarrow> string" where
  "results_header task_text cat single_sequence_id =
     ''Results for task='' @ task_text @ ''; category='' @ cat @ '';'' @
     (case single_sequence_id of
        Some i \<Rightarrow> '' sequence='' @ str_int i @ '':''
      | None \<Rightarrow> '':'')"

text \<open>Lines 52-70: the loop over the sequence ids.\<close>

fun sequence_loop ::
  "('g, 'c, 'p, 'b, 'r) externals \<Rightarrow> Task \<Rightarrow> string \<Rightarrow> int option list
     \<Rightarrow> ('g, 'c, 'p, 'b, 'r) main_state \<Rightarrow> ('g, 'c, 'p, 'b, 'r) main_run" where
  "sequence_loop ext task cat [] (tr, g, task_results) = (tr, g, Inr task_results)"
| "sequence_loop ext task cat (single_sequence_id # ids) (tr, g, task_results) =
     (case evaluate_dbir_for_category ext cat task default_bg_color single_sequence_id
             default_num_workers None g of
        (evs, g', Inl e) \<Rightarrow>
          (tr @ [Call_evaluate cat task single_sequence_id] @ evs, g', Inl e)
      | (evs, g', Inr category_result) \<Rightarrow>
          (let tr' = tr @ [Call_evaluate cat task single_sequence_id] @ evs @
                       [Return_evaluate category_result,
                        Print '''',
                        Print (results_header (Task_format ext task) cat single_sequence_id),
                        Pretty_print category_result,
                        Print '''']
           in case map_of task_results task of
                None \<Rightarrow> (tr', g', Inl (KeyError (Task_format ext task)))
              | Some results \<Rightarrow>
                  sequence_loop ext task cat ids
                    (tr', g',
                     AList.update task (results @ [category_result]) task_results)))"

text \<open>Lines 51-71: the loop over the categories.\<close>

fun category_loop ::
  "('g, 'c, 'p, 'b, 'r) externals \<Rightarrow> Task \<Rightarrow> string list
     \<Rightarrow> ('g, 'c, 'p, 'b, 'r) main_state \<Rightarrow> ('g, 'c, 'p, 'b, 'r) main_run" where
  "category_loop ext task [] (tr, g, task_results) = (tr, g, Inr task_results)"
| "category_loop ext task (cat # cats) st =
     (case sequence_loop ext task cat
             (if task = SINGLE_SEQUENCE then [Some 0, Some 1] else [None]) st of
        (tr, g, Inl e) \<Rightarrow> (tr, g, Inl e)
      | (tr, g, Inr task_results) \<Rightarrow>
          (case print_aggregate_results ext task task_results of
             Inl e \<Rightarrow> (tr, g, Inl e)
           | Inr evs \<Rightarrow> category_loop ext task cats (tr @ evs, g, task_results)))"

text \<open>Lines 49-71: the loop over the tasks.\<close>

fun task_loop ::
  "('g, 'c, 'p, 'b, 'r) externals \<Rightarrow> Task list
     \<Rightarrow> ('g, 'c, 'p, 'b, 'r) main_state \<Rightarrow> ('g, 'c, 'p, 'b, 'r) main_run" where
  "task_loop ext [] (tr, g, task_results) = (tr, g, Inr task_results)"
| "task_loop ext (task # tasks) (tr, g, task_results) =
     (case category_loop ext task
             (take (if task = SINGLE_SEQUENCE then 20 else 10) (CO3D_CATEGORIES ext))
             (tr, g, AList.update task [] task_results) of
        (tr', g', Inl e) \<Rightarrow> (tr', g', Inl e)
      | (tr', g', Inr task_results') \<Rightarrow> task_loop ext tasks (tr', g', task_results'))"

text \<open>Lines 73-74: the loop over the keys of \<open>task_results\<close>.\<close>

fun final_loop ::
  "('g, 'c, 'p, 'b, 'r) externals \<Rightarrow> Task list
     \<Rightarrow> ('g, 'c, 'p, 'b, 'r) main_state \<Rightarrow> ('g, 'c, 'p, 'b, 'r) main_run" where
  "final_loop ext [] (tr, g, task_results) = (tr, g, Inr task_results)"
| "final_loop ext (task # tasks) (tr, g, task_results) =
     (case print_aggregate_results ext task task_results of
        Inl e \<Rightarrow> (tr, g, Inl e)
      | Inr evs \<Rightarrow> final_loop ext tasks (tr @ evs, g, task_results))"

definition main ::
  "('g, 'c, 'p, 'b, 'r) externals \<Rightarrow> 'g \<Rightarrow> ('g, 'c, 'p, 'b, 'r) main_run" where
  "main ext g =
     (case task_loop ext [SINGLE_SEQUENCE, MULTI_SEQUENCE] ([], g, []) of
        (tr, g', Inl e) \<Rightarrow> (tr, g', Inl e)
      | (tr, g', Inr task_results) \<Rightarrow>
          final_loop ext (map fst task_results) (tr, g', task_results))"

section \<open>\<open>tests/implicitron/test_data_source.py\<close>\<close>

text \<open>A path is the list of its components.  The file system is the set of the
  directories that exist, and for each file the text that \<open>Path.read_text\<close> returns for
  it.  \<open>get_tests_dir\<close>, \<open>get_default_args\<close> and \<open>OmegaConf.to_yaml\<close> are library
  calls, passed in.\<close>

type_synonym path = "string list"

type_synonym file_system = "path \<rightharpoonup> string"

datatype test_outcome = Test_passed | Test_failed | Test_error error

definition DATA_DIR :: "path \<Rightarrow> path" where
  "DATA_DIR tests_dir = tests_dir @ [''implicitron'', ''data'']"

definition DEBUG :: bool where
  "DEBUG = False"

definition golden_file :: "path \<Rightarrow> path" where
  "golden_file tests_dir = DATA_DIR tests_dir @ [''data_source.yaml'']"

definition read_text :: "file_system \<Rightarrow> path \<Rightarrow> error + string" where
  "read_text fs p = (case fs p of None \<Rightarrow> Inl (FileNotFoundError p) | Some t \<Rightarrow> Inr t)"

text \<open>Reading a file as text turns every carriage return, with the line feed that may
  follow it, into one line feed; so a text that is written is read back with its
  carriage returns changed.\<close>

fun universal_newlines :: "string \<Rightarrow> string" where
  "universal_newlines [] = []"
| "universal_newlines [c] = [if c = CHR 0x0D then CHR 0x0A else c]"
| "universal_newlines (c # d # t) =
     (if c = CHR 0x0D \<and> d = CHR 0x0A then CHR 0x0A # universal_newlines t
      else if c = CHR 0x0D then CHR 0x0A # universal_newlines (d # t)
      else c # universal_newlines (d # t))"

text \<open>\<open>Path.write_text\<close> raises when the directory of the file does not exist or the
  path is itself a directory; it creates no directory.  Otherwise the file holds the
  text, whatever it held before.\<close>

definition write_text :: "path set \<Rightarrow> file_system \<Rightarrow> path \<Rightarrow> string \<Rightarrow> error + file_system" where
  "write_text dirs fs p t =
     (if p = [] \<or> butlast p \<notin> dirs then Inl (FileNotFoundError p)
      else if p \<in> dirs then Inl (IsADirectoryError p)
      else Inr (fs(p \<mapsto> universal_newlines t)))"

text \<open>\<open>test_one\<close> (lines 27-32), with the module's flag \<open>DEBUG\<close> as a parameter; the
  second argument of \<open>to_yaml\<close> is \<open>sort_keys\<close>.  An exception of \<open>write_text\<close> or
  \<open>read_text\<close> ends the test with an error.\<close>

definition test_one ::
  "('cls \<Rightarrow> 'cfg) \<Rightarrow> ('cfg \<Rightarrow> bool \<Rightarrow> string) \<Rightarrow> 'cls \<Rightarrow> path \<Rightarrow> bool
     \<Rightarrow> path set \<Rightarrow> file_system \<Rightarrow> file_system \<times> test_outcome" where
  "test_one get_default_args to_yaml cls tests_dir debug dirs fs =
     (let cfg = get_default_args cls;
          yaml = to_yaml cfg False
      in case (if debug then write_text dirs fs (golden_file tests_dir) yaml else Inr fs) of
           Inl e \<Rightarrow> (fs, Test_error e)
         | Inr fs1 \<Rightarrow>
             (case read_text fs1 (golden_file tests_dir) of
                Inl e \<Rightarrow> (fs1, Test_error e)
              | Inr expected \<Rightarrow>
                  (fs1, if yaml = expected then Test_passed else Test_failed)))"

section \<open>Reading the events\<close>

text \<open>The events of the iterations of the loop over the test batches.\<close>

fun is_batch_event :: "('c, 'p, 'b, 'r) event \<Rightarrow> bool" where
  "is_batch_event (To_cuda fd) = True"
| "is_batch_event (Model_call m fd) = True"
| "is_batch_event (Eval_batch fd p c l cams b) = True"
| "is_batch_event _ = False"

text \<open>The events that build or move a model.\<close>

fun is_model_event :: "('c, 'p, 'b, 'r) event \<Rightarrow> bool" where
  "is_model_event (ModelDBIR_init m) = True"
| "is_model_event ModelDBIR_cuda = True"
| "is_model_event (LPIPS_init l) = True"
| "is_model_event LPIPS_cuda = True"
| "is_model_event _ = False"

text \<open>Of each \<open>eval_batch\<close> call: its \<open>source_cameras\<close>, its \<open>lpips_model\<close> and its
  \<open>bg_color\<close>; of each call of the model: the model.\<close>

fun source_cameras_of :: "('c, 'p, 'b, 'r) event \<Rightarrow> 'c list option list" where
  "source_cameras_of (Eval_batch fd p c l cams b) = [cams]"
| "source_cameras_of _ = []"

fun lpips_of :: "('c, 'p, 'b, 'r) event \<Rightarrow> (LPIPS \<times> color) list" where
  "lpips_of (Eval_batch fd p c l cams b) = [(l, c)]"
| "lpips_of _ = []"

fun model_of :: "('c, 'p, 'b, 'r) event \<Rightarrow> ModelDBIR list" where
  "model_of (Model_call m fd) = [m]"
| "model_of _ = []"

fun data_source_of :: "('c, 'p, 'b, 'r) event \<Rightarrow> JsonIndexDatasetMapProvider_args list" where
  "data_source_of (DataSource_init a) = [a]"
| "data_source_of _ = []"

text \<open>Of \<open>main\<close>: the calls of \<open>evaluate_dbir_for_category\<close> and the results they
  return.\<close>

fun call_of :: "('c, 'p, 'b, 'r) event \<Rightarrow> (string \<times> Task \<times> int option) list" where
  "call_of (Call_evaluate cat task sid) = [(cat, task, sid)]"
| "call_of _ = []"

fun return_of :: "('c, 'p, 'b, 'r) event \<Rightarrow> 'r list" where
  "return_of (Return_evaluate r) = [r]"
| "return_of _ = []"

text \<open>Of a run of \<open>evaluate_dbir_for_category\<close>: its events and what it returns or
  raises.\<close>

definition run_events :: "'e list \<times> 'g \<times> (error + 'a) \<Rightarrow> 'e list" where
  "run_events run = fst run"

definition run_result :: "'e list \<times> 'g \<times> (error + 'a) \<Rightarrow> error + 'a" where
  "run_result run = snd (snd run)"

fun summarized_of :: "('c, 'p, 'b, 'r) event \<Rightarrow> ('b list \<times> Task) list" where
  "summarized_of (Summarize bs task) = [(bs, task)]"
| "summarized_of _ = []"

text \<open>One iteration of the loop over the test batches, started in generator state
  \<open>gi\<close>, gets \<open>render\<close> from the model and \<open>res\<close> from \<open>eval_batch\<close>.\<close>

definition batch_step ::
  "('g, 'c, 'p, 'b, 'r) externals \<Rightarrow> ModelDBIR \<Rightarrow> LPIPS \<Rightarrow> color \<Rightarrow> 'c list option
     \<Rightarrow> 'c FrameData \<Rightarrow> 'g \<times> 'p \<times> 'b \<Rightarrow> bool" where
  "batch_step ext model lpips_model bg cams frame_data step =
     (case step of
        (gi, render, res) \<Rightarrow>
          (case model_forward ext model (dataclass_to_cuda ext frame_data) gi of
             (preds, g1) \<Rightarrow>
               preds ''implicitron_render'' = Some render \<and>
               fst (eval_batch ext (dataclass_to_cuda ext frame_data) render bg
                      lpips_model cams g1) = res))"

text \<open>The events of one iteration.\<close>

definition batch_events ::
  "('g, 'c, 'p, 'b, 'r) externals \<Rightarrow> ModelDBIR \<Rightarrow> LPIPS \<Rightarrow> color \<Rightarrow> 'c list option
     \<Rightarrow> 'c FrameData \<times> 'g \<times> 'p \<times> 'b \<Rightarrow> ('c, 'p, 'b, 'r) event list" where
  "batch_events ext model lpips_model bg cams it =
     (case it of
        (frame_data, gi, render, res) \<Rightarrow>
          [To_cuda frame_data,
           Model_call model (dataclass_to_cuda ext frame_data),
           Eval_batch (dataclass_to_cuda ext frame_data) render bg lpips_model cams res])"

text \<open>The cameras of those frames that \<open>is_known_frame\<close>, applied to the frame types
  of all the frames, marks as known; in the order of the frames.\<close>

definition cameras_of_known_frames ::
  "('g, 'c, 'p, 'b, 'r) externals \<Rightarrow> 'c frame list \<Rightarrow> 'c list" where
  "cameras_of_known_frames ext frames =
     map camera (map fst (filter snd (zip frames (is_known_frame ext (map frame_type frames)))))"

definition events_of :: "('e \<Rightarrow> 'a list) \<Rightarrow> 'e list \<Rightarrow> 'a list" where
  "events_of f tr = concat (map f tr)"

section \<open>What \<open>main\<close> is to call and to print\<close>

text \<open>The calls \<open>main\<close> is to make: for the single-sequence task the first 20 categories
  with the sequence ids 0 and 1, then for the multi-sequence task the first 10 categories
  without a sequence id.\<close>

definition expected_calls :: "string list \<Rightarrow> (string \<times> Task \<times> int option) list" where
  "expected_calls categories =
     concat (map (\<lambda>c. [(c, SINGLE_SEQUENCE, Some 0), (c, SINGLE_SEQUENCE, Some 1)])
               (take 20 categories)) @
     map (\<lambda>c. (c, MULTI_SEQUENCE, None)) (take 10 categories)"

text \<open>What \<open>main\<close> itself does with the metrics: the calls of
  \<open>evaluate_dbir_for_category\<close> and what they return, the metrics handed to
  \<open>pretty_print_nvs_metrics\<close> and the lists handed to \<open>aggregate_nvs_results\<close>.\<close>

fun is_main_event :: "('c, 'p, 'b, 'r) event \<Rightarrow> bool" where
  "is_main_event (Call_evaluate cat task sid) = True"
| "is_main_event (Return_evaluate r) = True"
| "is_main_event (Pretty_print r) = True"
| "is_main_event (Aggregate rs) = True"
| "is_main_event _ = False"

text \<open>For one category, with the results of its calls: each call, the result it returns,
  and right after it that result printed.\<close>

fun expected_category_events ::
  "Task \<Rightarrow> string \<Rightarrow> int option list \<Rightarrow> 'r list \<Rightarrow> ('c, 'p, 'b, 'r) event list" where
  "expected_category_events task cat (sid # ids) (r # rs) =
     [Call_evaluate cat task sid, Return_evaluate r, Pretty_print r] @
     expected_category_events task cat ids rs"
| "expected_category_events task cat ids rs = []"

text \<open>For one task, with the results grouped by category: after the calls of each
  category, the aggregate of all the results of the task up to then and its print,
  before the calls of the next category.\<close>

fun expected_task_events ::
  "('r list \<Rightarrow> 'r) \<Rightarrow> Task \<Rightarrow> int option list \<Rightarrow> 'r list \<Rightarrow> string list \<Rightarrow> 'r list list
     \<Rightarrow> ('c, 'p, 'b, 'r) event list" where
  "expected_task_events agg task ids done (cat # cats) (rs # groups) =
     expected_category_events task cat ids rs @
     [Aggregate (done @ rs), Pretty_print (agg (done @ rs))] @
     expected_task_events agg task ids (done @ rs) cats groups"
| "expected_task_events agg task ids done cats groups = []"

text \<open>For a whole run: the single-sequence task, the multi-sequence task, and at the end
  the aggregate of each task once more.\<close>

definition expected_main_events ::
  "('r list \<Rightarrow> 'r) \<Rightarrow> string list \<Rightarrow> 'r list list \<Rightarrow> 'r list list
     \<Rightarrow> ('c, 'p, 'b, 'r) event list" where
  "expected_main_events agg categories groups1 groups2 =
     expected_task_events agg SINGLE_SEQUENCE [Some 0, Some 1] [] (take 20 categories) groups1 @
     expected_task_events agg MULTI_SEQUENCE [None] [] (take 10 categories) groups2 @
     [Aggregate (concat groups1), Pretty_print (agg (concat groups1)),
      Aggregate (concat groups2), Pretty_print (agg (concat groups2))]"

text \<open>Of a run of \<open>main\<close>: its events, and the \<open>task_results\<close> it ends with.\<close>

definition main_events ::
  "('g, 'c, 'p, 'b, 'r) main_run \<Rightarrow> ('c, 'p, 'b, 'r) event list" where
  "main_events run = fst run"

definition main_task_results ::
  "('g, 'c, 'p, 'b, 'r) main_run \<Rightarrow> error + 'r task_results" where
  "main_task_results run = snd (snd run)"

section \<open>A small run\<close>

text \<open>A dataset of three frames of one sequence, two of them known, a test dataloader of
  two batches, and library calls that count: used to run the driver on a concrete input.\<close>

definition example_frames :: "nat frame list" where
  "example_frames =
     [\<lparr>frame_type = ''test_known'', camera = 10\<rparr>,
      \<lparr>frame_type = ''test_unseen'', camera = 11\<rparr>,
      \<lparr>frame_type = ''test_known'', camera = 12\<rparr>]"

definition example_dataset :: "int option \<Rightarrow> nat ImplicitronDataset" where
  "example_dataset w =
     \<lparr>frame_annots = [''seq_a'', ''seq_a'', ''seq_a''],
      image_width = w,
      sequence_indices_in_order = (\<lambda>name. if name = ''seq_a'' then [0, 1, 2] else []),
      getitem = (\<lambda>i. if i < 3 then Some (example_frames ! i) else None)\<rparr>"

definition example_loader :: "nat FrameData list" where
  "example_loader = [[example_frames ! 1], [example_frames ! 1]]"

definition example_externals_on ::
  "nat ImplicitronDataset option \<Rightarrow> (nat, nat, nat, nat, nat) externals" where
  "example_externals_on test_dataset =
     \<lparr>environ = [''CO3D_DATASET_ROOT'' \<mapsto> ''/data/co3d''],
      CO3D_CATEGORIES = [''apple''],
      Task_value = (\<lambda>t. case t of SINGLE_SEQUENCE \<Rightarrow> ''singlesequence''
                                 | MULTI_SEQUENCE \<Rightarrow> ''multisequence''),
      Task_format = (\<lambda>t. case t of SINGLE_SEQUENCE \<Rightarrow> ''Task.SINGLE_SEQUENCE''
                                  | MULTI_SEQUENCE \<Rightarrow> ''Task.MULTI_SEQUENCE''),
      manual_seed = (\<lambda>seed. nat seed),
      get_datasets_and_dataloaders =
        (\<lambda>args g. ((\<lparr>datasets_test = test_dataset\<rparr>,
                     \<lparr>dataloaders_test = Some example_loader\<rparr>),
                    Suc g)),
      is_known_frame = map (\<lambda>t. t = ''test_known''),
      dataclass_to_cuda = (\<lambda>fd. fd),
      model_forward = (\<lambda>m fd g. ([''implicitron_render'' \<mapsto> length fd], Suc g)),
      eval_batch = (\<lambda>fd p c l cams g. (p + g, Suc g)),
      summarize_nvs_eval_results = (\<lambda>rs t. (0, [''results'' \<mapsto> sum_list rs])),
      aggregate_nvs_results = sum_list\<rparr>"

definition example_externals :: "(nat, nat, nat, nat, nat) externals" where
  "example_externals = example_externals_on (Some (example_dataset (Some 800)))"

text \<open>The same library calls with two categories, and with a data source whose effect
  on the generator depends on the category and the sequence id, so that the calls of
  \<open>main\<close> return different results.\<close>

definition example_main_externals :: "(nat, nat, nat, nat, nat) externals" where
  "example_main_externals =
     example_externals
       \<lparr>CO3D_CATEGORIES := [''apple'', ''ball''],
        get_datasets_and_dataloaders :=
          (\<lambda>args g. ((\<lparr>datasets_test = Some (example_dataset (Some 800))\<rparr>,
                       \<lparr>dataloaders_test = Some example_loader\<rparr>),
                      Suc g + length (category args) +
                        nat (test_restrict_sequence_id args + 1)))\<rparr>"

text \<open>A test dataset without frames and without an image width.\<close>

definition empty_dataset :: "nat ImplicitronDataset" where
  "empty_dataset =
     \<lparr>frame_annots = [], image_width = None,
      sequence_indices_in_order = (\<lambda>name. []), getitem = (\<lambda>i. None)\<rparr>"

section \<open>Auxiliary facts\<close>

lemma fetch_length: "fetch gi idx = Inr xs \<Longrightarrow> length xs = length idx"
  by (induction idx arbitrary: xs) (auto split: option.splits sum.splits)

lemma batches_whole: "xs \<noteq> [] \<Longrightarrow> batches (length xs) xs = [xs]"
  by (simp add: batches.simps[of "length xs" xs] batches.simps[of "length xs" "[]"])

lemma torch_where_snoc:
  "torch_where (flags @ [b]) = torch_where flags @ (if b then [length flags] else [])"
  by (auto simp: torch_where_def nth_append intro!: filter_cong)

lemma zip_snoc_right:
  "zip cs (flags @ [b]) =
     (if length flags < length cs then zip cs flags @ [(cs ! length flags, b)] else zip cs flags)"
proof (cases "length flags < length cs")
  case True
  then have "cs = take (length flags) cs @ (cs ! length flags) # drop (Suc (length flags)) cs"
    by (simp add: id_take_nth_drop)
  then obtain c1 c2 where cs: "cs = c1 @ (cs ! length flags) # c2" "length c1 = length flags"
    by (metis True length_take less_imp_le_nat min.absorb2)
  have "zip (c1 @ (cs ! length flags) # c2) (flags @ [b]) = zip c1 flags @ [(cs ! length flags, b)]"
    using cs(2) by (simp add: zip_append1)
  moreover have "zip (c1 @ (cs ! length flags) # c2) flags = zip c1 flags"
    using cs(2) by (simp add: zip_append1)
  ultimately show ?thesis using True cs(1) by metis
next
  case False
  then show ?thesis by (simp add: zip_append2)
qed

lemma cameras_at_known:
  "list_all (\<lambda>i. i < length cs) (torch_where flags) \<Longrightarrow>
   map (\<lambda>i. cs ! i) (torch_where flags) = map fst (filter snd (zip cs flags))"
proof (induction flags rule: rev_induct)
  case Nil
  then show ?case by (simp add: torch_where_def)
next
  case (snoc b flags)
  then show ?case
    by (auto simp: torch_where_snoc zip_snoc_right)
qed

lemma get_all_source_cameras_success:
  assumes "get_all_source_cameras ext ds name nw = Inr cams"
  shows "\<exists>frames. fetch (getitem ds) (sequence_indices_in_order ds name) = Inr frames \<and>
           frames \<noteq> [] \<and>
           cams = map camera (map fst (filter snd
                    (zip frames (is_known_frame ext (map frame_type frames)))))"
proof -
  let ?idx = "sequence_indices_in_order ds name"
  from assms obtain loaded where
    l: "DataLoader (getitem ds) ?idx (length ?idx) = Inr loaded"
    by (auto simp: get_all_source_cameras_def Let_def split: sum.splits)
  then obtain frames where
    f: "fetch (getitem ds) ?idx = Inr frames" and n: "length ?idx \<noteq> 0" and
    b: "loaded = map collate (batches (length ?idx) frames)"
    by (auto simp: DataLoader_def split: if_splits sum.splits)
  have len: "length frames = length ?idx" using f by (rule fetch_length)
  then have ne: "frames \<noteq> []" using n by auto
  have "loaded = [frames]" using b len batches_whole[OF ne] by (simp add: collate_def)
  with assms l have
    c: "cameras_getitem (map camera frames)
          (torch_where (is_known_frame ext (map frame_type frames))) = Inr cams"
    by (simp add: get_all_source_cameras_def Let_def)
  then have "cams = map fst (filter snd (zip (map camera frames)
                 (is_known_frame ext (map frame_type frames))))"
    by (auto simp: cameras_getitem_def cameras_at_known split: if_splits)
  also have "\<dots> = map camera (map fst (filter snd
                    (zip frames (is_known_frame ext (map frame_type frames)))))"
    by (simp add: zip_map1 filter_map comp_def case_prod_unfold)
  finally show ?thesis using f ne by blast
qed

lemma eval_loop_batch_events:
  "eval_loop ext model lp bg cams bs acc g = (evs, g', out) \<Longrightarrow> list_all is_batch_event evs"
  by (induction bs arbitrary: acc g evs g' out)
     (auto simp: Let_def split: prod.splits option.splits)

lemma eval_loop_success:
  "eval_loop ext model lp bg cams bs acc g = (evs, g', Inr per_batch) \<Longrightarrow>
   \<exists>steps. length steps = length bs \<and>
     list_all2 (batch_step ext model lp bg cams) bs steps \<and>
     per_batch = acc @ map (\<lambda>s. snd (snd s)) steps \<and>
     evs = concat (map (batch_events ext model lp bg cams) (zip bs steps))"
proof (induction bs arbitrary: acc g evs)
  case Nil
  then show ?case by simp
next
  case (Cons b bs)
  from Cons.prems obtain preds g1 render res g2 evs2 where
    m: "model_forward ext model (dataclass_to_cuda ext b) g = (preds, g1)" and
    p: "preds ''implicitron_render'' = Some render" and
    e: "eval_batch ext (dataclass_to_cuda ext b) render bg lp cams g1 = (res, g2)" and
    l: "eval_loop ext model lp bg cams bs (acc @ [res]) g2 = (evs2, g', Inr per_batch)" and
    v: "evs = batch_events ext model lp bg cams (b, g, render, res) @ evs2"
    by (auto simp: Let_def batch_events_def split: prod.splits option.splits)
  from Cons.IH[OF l] obtain steps where
    st: "length steps = length bs" "list_all2 (batch_step ext model lp bg cams) bs steps"
      "per_batch = (acc @ [res]) @ map (\<lambda>s. snd (snd s)) steps"
      "evs2 = concat (map (batch_events ext model lp bg cams) (zip bs steps))"
    by blast
  have b: "batch_step ext model lp bg cams b (g, render, res)"
    by (simp add: batch_step_def m p e)
  show ?case
    by (rule exI[of _ "(g, render, res) # steps"]) (simp add: st v b)
qed

lemma evaluate_success:
  assumes "evaluate_dbir_for_category ext cat task bg sid nw pm g0 = (tr, g, Inr r)"
  shows "\<exists>args datasets dataloaders g2 test_dataset test_dataloader cams image_size evs per_batch flat cr.
    dataset_map_provider_args ext cat task sid pm = Inr args \<and>
    get_datasets_and_dataloaders ext args (manual_seed ext 42) = ((datasets, dataloaders), g2) \<and>
    datasets_test datasets = Some test_dataset \<and>
    dataloaders_test dataloaders = Some test_dataloader \<and>
    all_source_cameras_of ext task test_dataset nw = Inr cams \<and>
    image_width test_dataset = Some image_size \<and>
    eval_loop ext (ModelDBIR_to_cuda (ModelDBIR_new image_size image_size bg 100000))
        (LPIPS_to_cuda (LPIPS_new ''vgg'')) bg cams test_dataloader [] g2 = (evs, g, Inr per_batch) \<and>
    summarize_nvs_eval_results ext per_batch task = (flat, cr) \<and>
    cr ''results'' = Some r \<and>
    tr = [Manual_seed 42, DataSource_init args, Get_datasets_and_dataloaders,
          ModelDBIR_init (ModelDBIR_new image_size image_size bg 100000), ModelDBIR_cuda,
          LPIPS_init (LPIPS_new ''vgg''), LPIPS_cuda, Print ''Evaluating DBIR model ...'']
         @ evs @ [Summarize per_batch task]"
  using assms unfolding evaluate_dbir_for_category_def Let_def
  by (auto split: sum.splits prod.splits option.splits)

lemma example_fields:
  "environ (example_externals_on d) ''CO3D_DATASET_ROOT'' = Some ''/data/co3d''"
  "CO3D_CATEGORIES (example_externals_on d) = [''apple'']"
  "Task_value (example_externals_on d) SINGLE_SEQUENCE = ''singlesequence''"
  "Task_value (example_externals_on d) MULTI_SEQUENCE = ''multisequence''"
  "Task_format (example_externals_on d) SINGLE_SEQUENCE = ''Task.SINGLE_SEQUENCE''"
  "Task_format (example_externals_on d) MULTI_SEQUENCE = ''Task.MULTI_SEQUENCE''"
  "manual_seed (example_externals_on d) seed = nat seed"
  "get_datasets_and_dataloaders (example_externals_on d) args g =
     ((\<lparr>datasets_test = d\<rparr>, \<lparr>dataloaders_test = Some example_loader\<rparr>), Suc g)"
  "is_known_frame (example_externals_on d) = map (\<lambda>t. t = ''test_known'')"
  "dataclass_to_cuda (example_externals_on d) fd = fd"
  "model_forward (example_externals_on d) m fd g = ([''implicitron_render'' \<mapsto> length fd], Suc g)"
  "eval_batch (example_externals_on d) fd p c l cams g = (p + g, Suc g)"
  "summarize_nvs_eval_results (example_externals_on d) rs t = (0, [''results'' \<mapsto> sum_list rs])"
  "aggregate_nvs_results (example_externals_on d) = sum_list"
  by (simp_all add: example_externals_on_def)

lemma example_dataset_fields:
  "frame_annots (example_dataset w) = [''seq_a'', ''seq_a'', ''seq_a'']"
  "image_width (example_dataset w) = w"
  "sequence_indices_in_order (example_dataset w) ''seq_a'' = [0, 1, 2]"
  by (simp_all add: example_dataset_def)

lemma example_fetch:
  "fetch (getitem (example_dataset w)) [0, 1, 2] = Inr example_frames"
  by (simp add: example_dataset_def example_frames_def)

lemma example_DataLoader:
  "DataLoader (getitem (example_dataset w)) [0, 1, 2] (length [0, 1, 2::nat]) =
     Inr [example_frames]"
proof -
  have l: "length [0, 1, 2::nat] = length example_frames"
    by (simp add: example_frames_def)
  have ne: "example_frames \<noteq> []"
    by (simp add: example_frames_def)
  show ?thesis
    unfolding l DataLoader_def example_fetch
    by (simp add: batches_whole[OF ne] collate_def ne)
qed

lemma example_known:
  "cameras_getitem (map camera example_frames)
     (torch_where (map (\<lambda>t. t = ''test_known'') (map frame_type example_frames))) = Inr [10, 12]"
  by (simp add: example_frames_def torch_where_def cameras_getitem_def upt_rec)

lemma example_cameras:
  "get_all_source_cameras (example_externals_on d) (example_dataset w) ''seq_a'' nw = Inr [10, 12]"
  unfolding get_all_source_cameras_def Let_def example_dataset_fields example_DataLoader
    example_fields
  using example_known by simp

lemma example_loop:
  "eval_loop (example_externals_on d) m l bg cams example_loader [] 43 =
     (concat (map (batch_events (example_externals_on d) m l bg cams)
        (zip example_loader [(43, 1, 45), (45, 1, 47)])),
      47, Inr [45, 47])"
  by (simp add: example_loader_def example_fields batch_events_def Let_def)

lemma example_run_single:
  "run_result (evaluate_dbir_for_category example_externals ''apple'' SINGLE_SEQUENCE
     default_bg_color (Some 0) 16 None g) = Inr 92"
  by (simp add: run_result_def evaluate_dbir_for_category_def dataset_map_provider_args_def
      all_source_cameras_of_def example_cameras example_loop example_externals_def Let_def
      example_fields example_dataset_fields)

lemma example_run_multi:
  "run_result (evaluate_dbir_for_category example_externals ''apple'' MULTI_SEQUENCE
     default_bg_color None 16 None g) = Inr 92"
  by (simp add: run_result_def evaluate_dbir_for_category_def dataset_map_provider_args_def
      all_source_cameras_of_def example_loop example_externals_def Let_def
      example_fields example_dataset_fields)

lemma events_of_append [simp]: "events_of f (xs @ ys) = events_of f xs @ events_of f ys"
  by (simp add: events_of_def)

lemma events_of_Cons [simp]: "events_of f (x # xs) = f x @ events_of f xs"
  by (simp add: events_of_def)

lemma events_of_Nil [simp]: "events_of f [] = []"
  by (simp add: events_of_def)

lemma batch_events_no_data_source:
  "list_all is_batch_event evs \<Longrightarrow> events_of data_source_of evs = []"
  by (induction evs) (auto elim: is_batch_event.elims)

lemma batch_events_no_model_event:
  "list_all is_batch_event evs \<Longrightarrow> filter is_model_event evs = []"
  by (induction evs) (auto elim: is_batch_event.elims)

lemma eval_loop_error:
  "eval_loop ext model lp bg cams bs acc g = (evs, g', Inl e) \<Longrightarrow>
   e = KeyError ''implicitron_render''"
  by (induction bs arbitrary: acc g evs)
     (auto simp: Let_def split: prod.splits option.splits)

lemma fetch_error:
  "fetch gi idx = Inl e \<Longrightarrow> e = IndexError ''dataset index out of range''"
  by (induction idx) (auto split: option.splits sum.splits)

lemma get_all_source_cameras_error:
  assumes "get_all_source_cameras ext ds name nw = Inl e"
  shows "e \<noteq> ValueError ''must have a test dataset.'' \<and>
         e \<noteq> ValueError ''Image size should be set in the dataset''"
proof -
  let ?idx = "sequence_indices_in_order ds name"
  show ?thesis
  proof (cases "DataLoader (getitem ds) ?idx (length ?idx)")
    case (Inl e')
    then have "e' = e" using assms by (simp add: get_all_source_cameras_def)
    with Inl show ?thesis
      by (auto simp: DataLoader_def split: if_splits sum.splits dest: fetch_error)
  next
    case (Inr loaded)
    with assms show ?thesis
      by (auto simp: get_all_source_cameras_def Let_def cameras_getitem_def
          split: list.splits if_splits)
  qed
qed

lemma all_source_cameras_of_error:
  "all_source_cameras_of ext task td nw = Inl e \<Longrightarrow>
   e \<noteq> ValueError ''must have a test dataset.'' \<and>
   e \<noteq> ValueError ''Image size should be set in the dataset''"
  by (auto simp: all_source_cameras_of_def split: if_splits list.splits sum.splits
      dest: get_all_source_cameras_error)


lemma model_of_batch_events:
  "events_of model_of (concat (map (batch_events ext m l bg cams) its)) =
     replicate (length its) m"
  by (induction its) (auto simp: batch_events_def)

lemma lpips_of_batch_events:
  "events_of lpips_of (concat (map (batch_events ext m l bg cams) its)) =
     replicate (length its) (l, bg)"
  by (induction its) (auto simp: batch_events_def)

lemma source_cameras_of_batch_events:
  "events_of source_cameras_of (concat (map (batch_events ext m l bg cams) its)) =
     replicate (length its) cams"
  by (induction its) (auto simp: batch_events_def)

lemma summarized_of_batch_events:
  "events_of summarized_of (concat (map (batch_events ext m l bg cams) its)) = []"
  by (induction its) (auto simp: batch_events_def)

lemma filter_batch_events:
  "filter is_batch_event (concat (map (batch_events ext m l bg cams) its)) =
     concat (map (batch_events ext m l bg cams) its)"
  by (induction its) (auto simp: batch_events_def)

lemma filter_model_batch_events:
  "filter is_model_event (concat (map (batch_events ext m l bg cams) its)) = []"
  by (induction its) (auto simp: batch_events_def)

lemma evaluate_success_steps:
  assumes "run_result (evaluate_dbir_for_category ext cat task bg sid nw pm g0) = Inr r"
  shows "\<exists>args ds dl g2 td tl cams w steps flat cr.
    dataset_map_provider_args ext cat task sid pm = Inr args \<and>
    get_datasets_and_dataloaders ext args (manual_seed ext 42) = ((ds, dl), g2) \<and>
    datasets_test ds = Some td \<and>
    dataloaders_test dl = Some tl \<and>
    all_source_cameras_of ext task td nw = Inr cams \<and>
    image_width td = Some w \<and>
    length steps = length tl \<and>
    list_all2 (batch_step ext (ModelDBIR_to_cuda (ModelDBIR_new w w bg 100000))
                 (LPIPS_to_cuda (LPIPS_new ''vgg'')) bg cams) tl steps \<and>
    summarize_nvs_eval_results ext (map (\<lambda>s. snd (snd s)) steps) task = (flat, cr) \<and>
    cr ''results'' = Some r \<and>
    run_events (evaluate_dbir_for_category ext cat task bg sid nw pm g0) =
      [Manual_seed 42, DataSource_init args, Get_datasets_and_dataloaders,
       ModelDBIR_init (ModelDBIR_new w w bg 100000), ModelDBIR_cuda,
       LPIPS_init (LPIPS_new ''vgg''), LPIPS_cuda, Print ''Evaluating DBIR model ...'']
      @ concat (map (batch_events ext (ModelDBIR_to_cuda (ModelDBIR_new w w bg 100000))
                       (LPIPS_to_cuda (LPIPS_new ''vgg'')) bg cams) (zip tl steps))
      @ [Summarize (map (\<lambda>s. snd (snd s)) steps) task]"
proof -
  obtain tr g where run: "evaluate_dbir_for_category ext cat task bg sid nw pm g0 = (tr, g, Inr r)"
    using assms by (cases "evaluate_dbir_for_category ext cat task bg sid nw pm g0")
      (auto simp: run_result_def)
  from evaluate_success[OF run] obtain args ds dl g2 td tl cams w evs per_batch flat cr where
    e: "dataset_map_provider_args ext cat task sid pm = Inr args"
       "get_datasets_and_dataloaders ext args (manual_seed ext 42) = ((ds, dl), g2)"
       "datasets_test ds = Some td" "dataloaders_test dl = Some tl"
       "all_source_cameras_of ext task td nw = Inr cams" "image_width td = Some w"
       "eval_loop ext (ModelDBIR_to_cuda (ModelDBIR_new w w bg 100000))
          (LPIPS_to_cuda (LPIPS_new ''vgg'')) bg cams tl [] g2 = (evs, g, Inr per_batch)"
       "summarize_nvs_eval_results ext per_batch task = (flat, cr)" "cr ''results'' = Some r"
       "tr = [Manual_seed 42, DataSource_init args, Get_datasets_and_dataloaders,
          ModelDBIR_init (ModelDBIR_new w w bg 100000), ModelDBIR_cuda,
          LPIPS_init (LPIPS_new ''vgg''), LPIPS_cuda, Print ''Evaluating DBIR model ...'']
         @ evs @ [Summarize per_batch task]"
    by blast
  from eval_loop_success[OF e(7)] obtain steps where
    s: "length steps = length tl"
       "list_all2 (batch_step ext (ModelDBIR_to_cuda (ModelDBIR_new w w bg 100000))
                 (LPIPS_to_cuda (LPIPS_new ''vgg'')) bg cams) tl steps"
       "per_batch = map (\<lambda>s. snd (snd s)) steps"
       "evs = concat (map (batch_events ext (ModelDBIR_to_cuda (ModelDBIR_new w w bg 100000))
                       (LPIPS_to_cuda (LPIPS_new ''vgg'')) bg cams) (zip tl steps))"
    by auto
  have "run_events (evaluate_dbir_for_category ext cat task bg sid nw pm g0) = tr"
    by (simp add: run run_events_def)
  with e s show ?thesis by blast
qed

section \<open>The snapshot test\<close>


text \<open>
  Claim C4.  With the module's default flag, \<open>test_one\<close> passes exactly when the golden
  file \<open>implicitron/data/data_source.yaml\<close> under the tests directory exists and its text
  equals, character for character, the YAML of the default configuration serialized
  with \<open>sort_keys=False\<close>.
\<close>

theorem test_one_passes_iff_golden_equal:
  "(snd (test_one get_default_args to_yaml cls tests_dir DEBUG dirs fs) = Test_passed) =
   (fs (tests_dir @ [''implicitron'', ''data'', ''data_source.yaml'']) =
      Some (to_yaml (get_default_args cls) False))"
  by (auto simp: DEBUG_def test_one_def Let_def read_text_def golden_file_def DATA_DIR_def
      split: option.splits)




section \<open>The random seed\<close>

text \<open>
  Claim C9.  Every run of \<open>evaluate_dbir_for_category\<close>, also one that raises, starts
  with \<open>torch.manual_seed(42)\<close>, before the data source is built; and two runs with the
  same arguments and the same library behaviour agree in their events, their final
  generator state and their result, whatever state the generator was in before.
\<close>

theorem evaluate_seeds_generator_first:
  "(\<exists>rest. run_events (evaluate_dbir_for_category ext cat task bg sid nw pm g) =
             Manual_seed 42 # rest) \<and>
   evaluate_dbir_for_category ext cat task bg sid nw pm g =
   evaluate_dbir_for_category ext cat task bg sid nw pm g'"
proof
  show "\<exists>rest. run_events (evaluate_dbir_for_category ext cat task bg sid nw pm g) =
             Manual_seed 42 # rest"
    unfolding evaluate_dbir_for_category_def Let_def run_events_def
    by (auto split: sum.splits prod.splits option.splits)
  show "evaluate_dbir_for_category ext cat task bg sid nw pm g =
        evaluate_dbir_for_category ext cat task bg sid nw pm g'"
    by (simp add: evaluate_dbir_for_category_def)
qed

section \<open>The data source\<close>

text \<open>
  Claim C5.  A run of \<open>evaluate_dbir_for_category\<close> in an environment that sets
  \<open>CO3D_DATASET_ROOT\<close> builds exactly one data source, configured with
  \<open>test_on_train=False\<close> and \<open>load_point_clouds=True\<close>, with \<open>assert_single_seq\<close> true
  exactly for the single-sequence task, with \<open>task_str\<close> the value of the task, and with
  \<open>test_restrict_sequence_id\<close> the given sequence id, or \<open>-1\<close> when none is given.
\<close>

theorem evaluate_configures_data_source:
  assumes "environ ext ''CO3D_DATASET_ROOT'' = Some root_dir"
  shows "events_of data_source_of
           (run_events (evaluate_dbir_for_category ext cat task bg sid nw pm g)) =
         [\<lparr>category = cat, dataset_root = root_dir,
           assert_single_seq = (task = SINGLE_SEQUENCE),
           task_str = Task_value ext task,
           test_on_train = False, load_point_clouds = True,
           test_restrict_sequence_id = (case sid of Some i \<Rightarrow> i | None \<Rightarrow> - 1),
           path_manager = pm\<rparr>]"
  using assms
  unfolding evaluate_dbir_for_category_def Let_def run_events_def dataset_map_provider_args_def
  by (auto split: sum.splits prod.splits option.splits
      dest!: eval_loop_batch_events batch_events_no_data_source)

theorem evaluate_configures_data_source_witness:
  "environ example_externals ''CO3D_DATASET_ROOT'' = Some ''/data/co3d'' \<and>
   events_of data_source_of
     (run_events (evaluate_dbir_for_category example_externals ''apple'' MULTI_SEQUENCE
        default_bg_color None 16 None 0)) =
   [\<lparr>category = ''apple'', dataset_root = ''/data/co3d'',
     assert_single_seq = False,
     task_str = ''multisequence'',
     test_on_train = False, load_point_clouds = True,
     test_restrict_sequence_id = - 1,
     path_manager = None\<rparr>]"
proof -
  have h: "environ example_externals ''CO3D_DATASET_ROOT'' = Some ''/data/co3d''"
    by (simp add: example_externals_def example_fields)
  from evaluate_configures_data_source[OF h, of "''apple''" MULTI_SEQUENCE default_bg_color None 16 None 0]
  show ?thesis using h by (simp add: example_externals_def example_fields)
qed

section \<open>The evaluation loop\<close>

text \<open>
  Claim C1.  When \<open>evaluate_dbir_for_category\<close> returns, the events of its loop are, for
  the batches of the test dataloader in the order they are yielded, the move of the batch
  to CUDA, the call of the model on the moved batch and one call of \<open>eval_batch\<close> on the
  model's \<open>implicitron_render\<close>; the list handed to \<open>summarize_nvs_eval_results\<close> holds
  the results of these \<open>eval_batch\<close> calls, one per batch in that order; and the value
  returned is the \<open>results\<close> entry of the summary.
\<close>

theorem evaluate_one_result_per_batch:
  assumes "run_result (evaluate_dbir_for_category ext cat task bg sid nw pm g) = Inr r"
  shows "\<exists>args ds dl g2 batches model lpips_model cams steps flat category_result.
     dataset_map_provider_args ext cat task sid pm = Inr args \<and>
     get_datasets_and_dataloaders ext args (manual_seed ext 42) = ((ds, dl), g2) \<and>
     dataloaders_test dl = Some batches \<and>
     length steps = length batches \<and>
     list_all2 (batch_step ext model lpips_model bg cams) batches steps \<and>
     filter is_batch_event (run_events (evaluate_dbir_for_category ext cat task bg sid nw pm g)) =
       concat (map (batch_events ext model lpips_model bg cams) (zip batches steps)) \<and>
     events_of summarized_of (run_events (evaluate_dbir_for_category ext cat task bg sid nw pm g)) = [(map (\<lambda>s. snd (snd s)) steps, task)] \<and>
     summarize_nvs_eval_results ext (map (\<lambda>s. snd (snd s)) steps) task =
       (flat, category_result) \<and>
     category_result ''results'' = Some r"
proof -
  from evaluate_success_steps[OF assms] obtain args ds dl g2 td tl cams w steps flat cr where
    e: "dataset_map_provider_args ext cat task sid pm = Inr args"
       "get_datasets_and_dataloaders ext args (manual_seed ext 42) = ((ds, dl), g2)"
       "dataloaders_test dl = Some tl"
       "length steps = length tl"
       "list_all2 (batch_step ext (ModelDBIR_to_cuda (ModelDBIR_new w w bg 100000))
                 (LPIPS_to_cuda (LPIPS_new ''vgg'')) bg cams) tl steps"
       "summarize_nvs_eval_results ext (map (\<lambda>s. snd (snd s)) steps) task = (flat, cr)"
       "cr ''results'' = Some r" and
    tr: "run_events (evaluate_dbir_for_category ext cat task bg sid nw pm g) =
      [Manual_seed 42, DataSource_init args, Get_datasets_and_dataloaders,
       ModelDBIR_init (ModelDBIR_new w w bg 100000), ModelDBIR_cuda,
       LPIPS_init (LPIPS_new ''vgg''), LPIPS_cuda, Print ''Evaluating DBIR model ...'']
      @ concat (map (batch_events ext (ModelDBIR_to_cuda (ModelDBIR_new w w bg 100000))
                       (LPIPS_to_cuda (LPIPS_new ''vgg'')) bg cams) (zip tl steps))
      @ [Summarize (map (\<lambda>s. snd (snd s)) steps) task]"
    by blast
  have f: "filter is_batch_event (run_events (evaluate_dbir_for_category ext cat task bg sid nw pm g)) =
       concat (map (batch_events ext (ModelDBIR_to_cuda (ModelDBIR_new w w bg 100000))
                       (LPIPS_to_cuda (LPIPS_new ''vgg'')) bg cams) (zip tl steps))"
    by (simp add: tr filter_batch_events)
  have s: "events_of summarized_of (run_events (evaluate_dbir_for_category ext cat task bg sid nw pm g)) =
       [(map (\<lambda>s. snd (snd s)) steps, task)]"
    by (simp add: tr summarized_of_batch_events)
  from e f s show ?thesis by blast
qed

theorem evaluate_one_result_per_batch_witness:
  "run_result (evaluate_dbir_for_category example_externals ''apple'' MULTI_SEQUENCE default_bg_color None 16 None 0) = Inr 92 \<and>
   (\<exists>args ds dl g2 batches model lpips_model cams steps flat category_result.
     dataset_map_provider_args example_externals ''apple'' MULTI_SEQUENCE None None = Inr args \<and>
     get_datasets_and_dataloaders example_externals args (manual_seed example_externals 42) = ((ds, dl), g2) \<and>
     dataloaders_test dl = Some batches \<and>
     length steps = length batches \<and>
     list_all2 (batch_step example_externals model lpips_model default_bg_color cams) batches steps \<and>
     filter is_batch_event (run_events (evaluate_dbir_for_category example_externals ''apple'' MULTI_SEQUENCE default_bg_color None 16 None 0)) =
       concat (map (batch_events example_externals model lpips_model default_bg_color cams) (zip batches steps)) \<and>
     events_of summarized_of (run_events (evaluate_dbir_for_category example_externals ''apple'' MULTI_SEQUENCE default_bg_color None 16 None 0)) = [(map (\<lambda>s. snd (snd s)) steps, MULTI_SEQUENCE)] \<and>
     summarize_nvs_eval_results example_externals (map (\<lambda>s. snd (snd s)) steps) MULTI_SEQUENCE =
       (flat, category_result) \<and>
     category_result ''results'' = Some 92)"
  using evaluate_one_result_per_batch[OF example_run_multi[of 0]] example_run_multi[of 0]
  by (rule_tac conjI)

section \<open>The models\<close>

text \<open>
  Claim C7.  The default background colour is black.  When \<open>evaluate_dbir_for_category\<close>
  returns, it has built exactly one \<open>ModelDBIR\<close>, with render width and height both the
  \<open>image_width\<close> of the test dataset, the caller's \<open>bg_color\<close> and \<open>max_points\<close> 100000,
  and one \<open>LPIPS\<close> with \<open>net='vgg'\<close>, and has moved each to CUDA; every call of the model
  is on that model on CUDA, and every \<open>eval_batch\<close> gets that LPIPS module on CUDA and
  the same \<open>bg_color\<close>.
\<close>

theorem evaluate_models:
  assumes "run_result (evaluate_dbir_for_category ext cat task bg sid nw pm g) = Inr r"
  shows "default_bg_color = (0, 0, 0) \<and>
   (\<exists>args ds dl g2 td batches w.
     dataset_map_provider_args ext cat task sid pm = Inr args \<and>
     get_datasets_and_dataloaders ext args (manual_seed ext 42) = ((ds, dl), g2) \<and>
     datasets_test ds = Some td \<and>
     dataloaders_test dl = Some batches \<and>
     image_width td = Some w \<and>
     filter is_model_event (run_events (evaluate_dbir_for_category ext cat task bg sid nw pm g)) =
       [ModelDBIR_init \<lparr>render_image_width = w, render_image_height = w, bg_color = bg,
                        max_points = 100000, model_device = CPU\<rparr>,
        ModelDBIR_cuda,
        LPIPS_init \<lparr>net = ''vgg'', lpips_device = CPU\<rparr>,
        LPIPS_cuda] \<and>
     events_of model_of (run_events (evaluate_dbir_for_category ext cat task bg sid nw pm g)) =
       replicate (length batches)
         \<lparr>render_image_width = w, render_image_height = w, bg_color = bg,
          max_points = 100000, model_device = CUDA\<rparr> \<and>
     events_of lpips_of (run_events (evaluate_dbir_for_category ext cat task bg sid nw pm g)) =
       replicate (length batches) (\<lparr>net = ''vgg'', lpips_device = CUDA\<rparr>, bg))"
proof -
  from evaluate_success_steps[OF assms] obtain args ds dl g2 td tl cams w steps where
    e: "dataset_map_provider_args ext cat task sid pm = Inr args"
       "get_datasets_and_dataloaders ext args (manual_seed ext 42) = ((ds, dl), g2)"
       "datasets_test ds = Some td"
       "dataloaders_test dl = Some tl"
       "image_width td = Some w"
       "length steps = length tl" and
    tr: "run_events (evaluate_dbir_for_category ext cat task bg sid nw pm g) =
      [Manual_seed 42, DataSource_init args, Get_datasets_and_dataloaders,
       ModelDBIR_init (ModelDBIR_new w w bg 100000), ModelDBIR_cuda,
       LPIPS_init (LPIPS_new ''vgg''), LPIPS_cuda, Print ''Evaluating DBIR model ...'']
      @ concat (map (batch_events ext (ModelDBIR_to_cuda (ModelDBIR_new w w bg 100000))
                       (LPIPS_to_cuda (LPIPS_new ''vgg'')) bg cams) (zip tl steps))
      @ [Summarize (map (\<lambda>s. snd (snd s)) steps) task]"
    by blast
  have a: "filter is_model_event (run_events (evaluate_dbir_for_category ext cat task bg sid nw pm g)) =
       [ModelDBIR_init \<lparr>render_image_width = w, render_image_height = w, bg_color = bg,
                        max_points = 100000, model_device = CPU\<rparr>,
        ModelDBIR_cuda,
        LPIPS_init \<lparr>net = ''vgg'', lpips_device = CPU\<rparr>,
        LPIPS_cuda]"
    by (simp add: tr filter_model_batch_events ModelDBIR_new_def LPIPS_new_def)
  have b: "events_of model_of (run_events (evaluate_dbir_for_category ext cat task bg sid nw pm g)) =
       replicate (length tl)
         \<lparr>render_image_width = w, render_image_height = w, bg_color = bg,
          max_points = 100000, model_device = CUDA\<rparr>"
    by (simp add: tr model_of_batch_events e(6) ModelDBIR_new_def ModelDBIR_to_cuda_def)
  have c: "events_of lpips_of (run_events (evaluate_dbir_for_category ext cat task bg sid nw pm g)) =
       replicate (length tl) (\<lparr>net = ''vgg'', lpips_device = CUDA\<rparr>, bg)"
    by (simp add: tr lpips_of_batch_events e(6) LPIPS_new_def LPIPS_to_cuda_def)
  have d: "default_bg_color = (0, 0, 0)" by (simp add: default_bg_color_def)
  from e a b c d show ?thesis by blast
qed

theorem evaluate_models_witness:
  "run_result (evaluate_dbir_for_category example_externals ''apple'' SINGLE_SEQUENCE default_bg_color (Some 0) 16 None 0) = Inr 92 \<and>
   default_bg_color = (0, 0, 0) \<and>
   (\<exists>args ds dl g2 td batches w.
     dataset_map_provider_args example_externals ''apple'' SINGLE_SEQUENCE (Some 0) None = Inr args \<and>
     get_datasets_and_dataloaders example_externals args (manual_seed example_externals 42) = ((ds, dl), g2) \<and>
     datasets_test ds = Some td \<and>
     dataloaders_test dl = Some batches \<and>
     image_width td = Some w \<and>
     filter is_model_event (run_events (evaluate_dbir_for_category example_externals ''apple'' SINGLE_SEQUENCE default_bg_color (Some 0) 16 None 0)) =
       [ModelDBIR_init \<lparr>render_image_width = w, render_image_height = w, bg_color = default_bg_color,
                        max_points = 100000, model_device = CPU\<rparr>,
        ModelDBIR_cuda,
        LPIPS_init \<lparr>net = ''vgg'', lpips_device = CPU\<rparr>,
        LPIPS_cuda] \<and>
     events_of model_of (run_events (evaluate_dbir_for_category example_externals ''apple'' SINGLE_SEQUENCE default_bg_color (Some 0) 16 None 0)) =
       replicate (length batches)
         \<lparr>render_image_width = w, render_image_height = w, bg_color = default_bg_color,
          max_points = 100000, model_device = CUDA\<rparr> \<and>
     events_of lpips_of (run_events (evaluate_dbir_for_category example_externals ''apple'' SINGLE_SEQUENCE default_bg_color (Some 0) 16 None 0)) =
       replicate (length batches) (\<lparr>net = ''vgg'', lpips_device = CUDA\<rparr>, default_bg_color))"
  using evaluate_models[OF example_run_single[of 0]] example_run_single[of 0]
  by (rule_tac conjI)

lemma eval_loop_source_cameras:
  "eval_loop ext m l bg cams bs acc g = (evs, g', out) \<Longrightarrow>
   \<exists>n. n \<le> length bs \<and> events_of source_cameras_of evs = replicate n cams \<and>
       (\<forall>per_batch. out = Inr per_batch \<longrightarrow> n = length bs)"
proof (induction bs arbitrary: acc g evs g' out)
  case Nil
  then show ?case by simp
next
  case (Cons b bs)
  obtain preds g1 where f: "model_forward ext m (dataclass_to_cuda ext b) g = (preds, g1)"
    by (cases "model_forward ext m (dataclass_to_cuda ext b) g")
  show ?case
  proof (cases "preds ''implicitron_render''")
    case None
    with Cons.prems f have "events_of source_cameras_of evs = []" and "\<exists>e. out = Inl e"
      by (auto simp: Let_def)
    then show ?thesis by (intro exI[of _ 0]) auto
  next
    case (Some render)
    obtain res g2 where e: "eval_batch ext (dataclass_to_cuda ext b) render bg l cams g1 = (res, g2)"
      by (cases "eval_batch ext (dataclass_to_cuda ext b) render bg l cams g1")
    obtain evs2 g3 out2 where
      r: "eval_loop ext m l bg cams bs (acc @ [res]) g2 = (evs2, g3, out2)"
      by (cases "eval_loop ext m l bg cams bs (acc @ [res]) g2")
    from Cons.IH[OF r] obtain n where
      n: "n \<le> length bs" "events_of source_cameras_of evs2 = replicate n cams"
         "\<forall>per_batch. out2 = Inr per_batch \<longrightarrow> n = length bs"
      by blast
    from Cons.prems f Some e r have
      "evs = [To_cuda b, Model_call m (dataclass_to_cuda ext b),
              Eval_batch (dataclass_to_cuda ext b) render bg l cams res] @ evs2"
      and o: "out = out2"
      by (simp_all add: Let_def)
    then have "events_of source_cameras_of evs = replicate (Suc n) cams"
      by (simp add: n)
    then show ?thesis using n(1,3) o by (intro exI[of _ "Suc n"]) simp
  qed
qed

lemma evaluate_source_cameras_events:
  "events_of source_cameras_of
     (run_events (evaluate_dbir_for_category ext cat task bg sid nw pm g)) = [] \<or>
   (\<exists>args ds dl g2 td tl cams n.
      dataset_map_provider_args ext cat task sid pm = Inr args \<and>
      get_datasets_and_dataloaders ext args (manual_seed ext 42) = ((ds, dl), g2) \<and>
      datasets_test ds = Some td \<and>
      dataloaders_test dl = Some tl \<and>
      all_source_cameras_of ext task td nw = Inr cams \<and>
      n \<le> length tl \<and>
      (\<forall>r. run_result (evaluate_dbir_for_category ext cat task bg sid nw pm g) = Inr r
           \<longrightarrow> n = length tl) \<and>
      events_of source_cameras_of
        (run_events (evaluate_dbir_for_category ext cat task bg sid nw pm g)) =
        replicate n cams)"
proof (cases "dataset_map_provider_args ext cat task sid pm")
  case (Inl e)
  then show ?thesis by (simp add: evaluate_dbir_for_category_def run_events_def)
next
  case a: (Inr args)
  obtain ds dl g2 where
    d: "get_datasets_and_dataloaders ext args (manual_seed ext 42) = ((ds, dl), g2)"
    by (metis prod.collapse)
  show ?thesis
  proof (cases "datasets_test ds")
    case None
    then show ?thesis by (simp add: evaluate_dbir_for_category_def run_events_def a d)
  next
    case td: (Some td)
    show ?thesis
    proof (cases "dataloaders_test dl")
      case None
      then show ?thesis by (simp add: evaluate_dbir_for_category_def run_events_def a d td)
    next
      case tl: (Some tl)
      show ?thesis
      proof (cases "all_source_cameras_of ext task td nw")
        case (Inl e)
        then show ?thesis
          by (simp add: evaluate_dbir_for_category_def run_events_def a d td tl)
      next
        case cams: (Inr cams)
        show ?thesis
        proof (cases "image_width td")
          case None
          then show ?thesis
            by (simp add: evaluate_dbir_for_category_def run_events_def a d td tl cams)
        next
          case w: (Some w)
          obtain evs g3 out where
            l: "eval_loop ext (ModelDBIR_to_cuda (ModelDBIR_new w w bg 100000))
                  (LPIPS_to_cuda (LPIPS_new ''vgg'')) bg cams tl [] g2 = (evs, g3, out)"
            by (metis prod.collapse)
          from eval_loop_source_cameras[OF l] obtain n where
            n: "n \<le> length tl" "events_of source_cameras_of evs = replicate n cams"
               "\<forall>per_batch. out = Inr per_batch \<longrightarrow> n = length tl"
            by blast
          have ev: "events_of source_cameras_of
                  (run_events (evaluate_dbir_for_category ext cat task bg sid nw pm g)) =
                replicate n cams"
            by (cases out)
               (auto simp: evaluate_dbir_for_category_def run_events_def a d td tl cams w l n
                  Let_def split: prod.splits option.splits)
          have "\<forall>r. run_result (evaluate_dbir_for_category ext cat task bg sid nw pm g) = Inr r
                  \<longrightarrow> n = length tl"
            using n(3)
            by (cases out)
               (auto simp: evaluate_dbir_for_category_def run_result_def a d td tl cams w l
                  Let_def split: prod.splits option.splits)
          with a d td tl cams n(1) ev show ?thesis by blast
        qed
      qed
    qed
  qed
qed

lemma evaluate_success_source_cameras:
  assumes "run_result (evaluate_dbir_for_category ext cat task bg sid nw pm g) = Inr r"
  shows "\<exists>args ds dl g2 tl cams.
           dataset_map_provider_args ext cat task sid pm = Inr args \<and>
           get_datasets_and_dataloaders ext args (manual_seed ext 42) = ((ds, dl), g2) \<and>
           dataloaders_test dl = Some tl \<and>
           events_of source_cameras_of
             (run_events (evaluate_dbir_for_category ext cat task bg sid nw pm g)) =
             replicate (length tl) cams"
proof -
  from evaluate_success_steps[OF assms] obtain args ds dl g2 td tl cams w steps where
    e: "dataset_map_provider_args ext cat task sid pm = Inr args"
       "get_datasets_and_dataloaders ext args (manual_seed ext 42) = ((ds, dl), g2)"
       "dataloaders_test dl = Some tl" and
    l: "length steps = length tl" and
    tr: "run_events (evaluate_dbir_for_category ext cat task bg sid nw pm g) =
      [Manual_seed 42, DataSource_init args, Get_datasets_and_dataloaders,
       ModelDBIR_init (ModelDBIR_new w w bg 100000), ModelDBIR_cuda,
       LPIPS_init (LPIPS_new ''vgg''), LPIPS_cuda, Print ''Evaluating DBIR model ...'']
      @ concat (map (batch_events ext (ModelDBIR_to_cuda (ModelDBIR_new w w bg 100000))
                       (LPIPS_to_cuda (LPIPS_new ''vgg'')) bg cams) (zip tl steps))
      @ [Summarize (map (\<lambda>s. snd (snd s)) steps) task]"
    by blast
  have "events_of source_cameras_of
              (run_events (evaluate_dbir_for_category ext cat task bg sid nw pm g)) =
            replicate (length tl) cams"
    by (simp add: tr source_cameras_of_batch_events l)
  with e show ?thesis by blast
qed
section \<open>The source cameras\<close>

text \<open>
  Claim C8.  In every run of \<open>evaluate_dbir_for_category\<close>, also one that raises, all
  the \<open>eval_batch\<close> calls get the same \<open>source_cameras\<close>.  For the single-sequence task
  the frames of the sequence of the first test frame were loaded in the order of
  \<open>sequence_indices_in_order\<close>, as one batch that is not empty, and \<open>source_cameras\<close>
  are the cameras of those of these frames that \<open>is_known_frame\<close> marks, in that order;
  for the multi-sequence task \<open>source_cameras\<close> is \<open>None\<close>.  There are at most as many
  calls as test batches, and as many when the run returns.
\<close>

theorem evaluate_source_cameras:
  "events_of source_cameras_of
     (run_events (evaluate_dbir_for_category ext cat task bg sid nw pm g)) = [] \<or>
   (\<exists>args ds dl g2 td batches n.
      dataset_map_provider_args ext cat task sid pm = Inr args \<and>
      get_datasets_and_dataloaders ext args (manual_seed ext 42) = ((ds, dl), g2) \<and>
      datasets_test ds = Some td \<and>
      dataloaders_test dl = Some batches \<and>
      n \<le> length batches \<and>
      (\<forall>r. run_result (evaluate_dbir_for_category ext cat task bg sid nw pm g) = Inr r
           \<longrightarrow> n = length batches) \<and>
      (if task = SINGLE_SEQUENCE
       then \<exists>sequence_name others frames.
              frame_annots td = sequence_name # others \<and>
              fetch (getitem td) (sequence_indices_in_order td sequence_name) = Inr frames \<and>
              frames \<noteq> [] \<and>
              events_of source_cameras_of
                (run_events (evaluate_dbir_for_category ext cat task bg sid nw pm g)) =
                replicate n (Some (cameras_of_known_frames ext frames))
       else events_of source_cameras_of
              (run_events (evaluate_dbir_for_category ext cat task bg sid nw pm g)) =
              replicate n None))"
proof (cases "events_of source_cameras_of
     (run_events (evaluate_dbir_for_category ext cat task bg sid nw pm g)) = []")
  case True
  then show ?thesis by simp
next
  case False
  with evaluate_source_cameras_events[of ext cat task bg sid nw pm g]
  obtain args ds dl g2 td tl cams n where
    e: "dataset_map_provider_args ext cat task sid pm = Inr args"
       "get_datasets_and_dataloaders ext args (manual_seed ext 42) = ((ds, dl), g2)"
       "datasets_test ds = Some td"
       "dataloaders_test dl = Some tl"
       "n \<le> length tl"
       "\<forall>r. run_result (evaluate_dbir_for_category ext cat task bg sid nw pm g) = Inr r
           \<longrightarrow> n = length tl" and
    c: "all_source_cameras_of ext task td nw = Inr cams" and
    sc: "events_of source_cameras_of
        (run_events (evaluate_dbir_for_category ext cat task bg sid nw pm g)) =
        replicate n cams"
    by blast
  show ?thesis
  proof (cases "task = SINGLE_SEQUENCE")
    case True
    with c obtain sequence_name others cs where
      fa: "frame_annots td = sequence_name # others" and
      g: "get_all_source_cameras ext td sequence_name nw = Inr cs" and
      cs: "cams = Some cs"
      by (auto simp: all_source_cameras_of_def split: list.splits sum.splits)
    from get_all_source_cameras_success[OF g] obtain frames where
      fr: "fetch (getitem td) (sequence_indices_in_order td sequence_name) = Inr frames"
          "frames \<noteq> []" "cs = cameras_of_known_frames ext frames"
      by (auto simp: cameras_of_known_frames_def)
    have "\<exists>sequence_name others frames.
              frame_annots td = sequence_name # others \<and>
              fetch (getitem td) (sequence_indices_in_order td sequence_name) = Inr frames \<and>
              frames \<noteq> [] \<and>
              events_of source_cameras_of
                (run_events (evaluate_dbir_for_category ext cat task bg sid nw pm g)) =
                replicate n (Some (cameras_of_known_frames ext frames))"
      using fa fr sc cs by blast
    with True e show ?thesis by auto
  next
    case False
    with c have "cams = None" by (simp add: all_source_cameras_of_def)
    with False e sc show ?thesis by auto
  qed
qed

theorem evaluate_source_cameras_witness:
  "run_result (evaluate_dbir_for_category example_externals ''apple'' SINGLE_SEQUENCE
     default_bg_color (Some 0) 16 None 0) = Inr 92 \<and>
   events_of source_cameras_of
     (run_events (evaluate_dbir_for_category example_externals ''apple'' SINGLE_SEQUENCE
        default_bg_color (Some 0) 16 None 0)) = [Some [10, 12], Some [10, 12]]"
proof -
  let ?R = "evaluate_dbir_for_category example_externals ''apple'' SINGLE_SEQUENCE
     default_bg_color (Some 0) 16 None 0"
  have r: "run_result ?R = Inr 92" by (rule example_run_single)
  have a: "dataset_map_provider_args example_externals ''apple'' SINGLE_SEQUENCE (Some 0) None =
     Inr \<lparr>category = ''apple'', dataset_root = ''/data/co3d'', assert_single_seq = True,
          task_str = ''singlesequence'', test_on_train = False, load_point_clouds = True,
          test_restrict_sequence_id = 0, path_manager = None\<rparr>"
    by (simp add: dataset_map_provider_args_def example_externals_def example_fields)
  have d: "\<And>args. get_datasets_and_dataloaders example_externals args
             (manual_seed example_externals 42) =
     ((\<lparr>datasets_test = Some (example_dataset (Some 800))\<rparr>,
       \<lparr>dataloaders_test = Some example_loader\<rparr>), 43)"
    by (simp add: example_externals_def example_fields)
  have k: "cameras_of_known_frames example_externals example_frames = [10, 12]"
    by (simp add: cameras_of_known_frames_def example_externals_def example_fields
        example_frames_def)
  have len: "length example_loader = 2" by (simp add: example_loader_def)
  from evaluate_source_cameras[of example_externals "''apple''" SINGLE_SEQUENCE
      default_bg_color "Some 0" 16 None 0]
  have "events_of source_cameras_of (run_events ?R) = [Some [10, 12], Some [10, 12]]"
  proof
    assume n: "events_of source_cameras_of (run_events ?R) = []"
    from evaluate_success_source_cameras[OF r] obtain args ds dl g2 tl cams where
      s: "dataset_map_provider_args example_externals ''apple'' SINGLE_SEQUENCE (Some 0) None
            = Inr args"
         "get_datasets_and_dataloaders example_externals args
            (manual_seed example_externals 42) = ((ds, dl), g2)"
         "dataloaders_test dl = Some tl"
         "events_of source_cameras_of (run_events ?R) = replicate (length tl) cams"
      by blast
    from s(1,2,3) a d[of args] have "tl = example_loader" by auto
    with n s(4) len show ?thesis by simp
  next
    assume "\<exists>args ds dl g2 td batches n.
      dataset_map_provider_args example_externals ''apple'' SINGLE_SEQUENCE (Some 0) None
        = Inr args \<and>
      get_datasets_and_dataloaders example_externals args (manual_seed example_externals 42)
        = ((ds, dl), g2) \<and>
      datasets_test ds = Some td \<and>
      dataloaders_test dl = Some batches \<and>
      n \<le> length batches \<and>
      (\<forall>r. run_result ?R = Inr r \<longrightarrow> n = length batches) \<and>
      (if SINGLE_SEQUENCE = SINGLE_SEQUENCE
       then \<exists>sequence_name others frames.
              frame_annots td = sequence_name # others \<and>
              fetch (getitem td) (sequence_indices_in_order td sequence_name) = Inr frames \<and>
              frames \<noteq> [] \<and>
              events_of source_cameras_of (run_events ?R) =
                replicate n (Some (cameras_of_known_frames example_externals frames))
       else events_of source_cameras_of (run_events ?R) = replicate n None)"
    then obtain args ds dl g2 td batches n sequence_name others frames where
      s: "dataset_map_provider_args example_externals ''apple'' SINGLE_SEQUENCE (Some 0) None
            = Inr args"
         "get_datasets_and_dataloaders example_externals args
            (manual_seed example_externals 42) = ((ds, dl), g2)"
         "datasets_test ds = Some td" "dataloaders_test dl = Some batches"
         "\<forall>r. run_result ?R = Inr r \<longrightarrow> n = length batches"
         "frame_annots td = sequence_name # others"
         "fetch (getitem td) (sequence_indices_in_order td sequence_name) = Inr frames"
         "events_of source_cameras_of (run_events ?R) =
                replicate n (Some (cameras_of_known_frames example_externals frames))"
      by auto
    from s(1,2,3,4) a d[of args] have t: "td = example_dataset (Some 800)" "batches = example_loader"
      by auto
    from s(6) t have "sequence_name = ''seq_a''" by (simp add: example_dataset_fields)
    moreover have "fetch (getitem (example_dataset (Some 800)))
             (sequence_indices_in_order (example_dataset (Some 800)) ''seq_a'') =
           Inr example_frames"
      unfolding example_dataset_fields by (rule example_fetch)
    ultimately have "frames = example_frames"
      using s(7) t by simp
    moreover from s(5) r t len have "n = 2" by simp
    ultimately show ?thesis using s(8) k by (simp add: numeral_2_eq_2)
  qed
  with r show ?thesis by simp
qed

section \<open>The two \<open>ValueError\<close>s\<close>

text \<open>
  Claim C3, as the code has it.  Let the data source have been built.  The run raises
  \<open>ValueError('must have a test dataset.')\<close> exactly when the test dataset or the test
  dataloader is \<open>None\<close>.  It raises \<open>ValueError('Image size should be set in the dataset')\<close>
  exactly when both exist, the loading of the source cameras of lines 126-135 (done for
  the single-sequence task only) has not itself raised, and the \<open>image_width\<close> of the
  test dataset is \<open>None\<close>.  In both cases nothing has happened but the seeding and the
  building of the data source: no model was built and no batch evaluated.  When a test
  dataset with a set image width and a test dataloader exist, neither is raised.
\<close>

theorem evaluate_value_errors:
  assumes a: "dataset_map_provider_args ext cat task sid pm = Inr args"
    and d: "get_datasets_and_dataloaders ext args (manual_seed ext 42) = ((ds, dl), g2)"
  shows
    "((run_result (evaluate_dbir_for_category ext cat task bg sid nw pm g) =
         Inl (ValueError ''must have a test dataset.'')) =
      (datasets_test ds = None \<or> dataloaders_test dl = None)) \<and>
     ((run_result (evaluate_dbir_for_category ext cat task bg sid nw pm g) =
         Inl (ValueError ''Image size should be set in the dataset'')) =
      (\<exists>td tl cams. datasets_test ds = Some td \<and> dataloaders_test dl = Some tl \<and>
         all_source_cameras_of ext task td nw = Inr cams \<and> image_width td = None)) \<and>
     (run_result (evaluate_dbir_for_category ext cat task bg sid nw pm g) =
         Inl (ValueError ''must have a test dataset.'') \<or>
      run_result (evaluate_dbir_for_category ext cat task bg sid nw pm g) =
         Inl (ValueError ''Image size should be set in the dataset'') \<longrightarrow>
      run_events (evaluate_dbir_for_category ext cat task bg sid nw pm g) =
        [Manual_seed 42, DataSource_init args, Get_datasets_and_dataloaders]) \<and>
     ((\<exists>td tl w. datasets_test ds = Some td \<and> dataloaders_test dl = Some tl \<and>
         image_width td = Some w) \<longrightarrow>
      run_result (evaluate_dbir_for_category ext cat task bg sid nw pm g) \<noteq>
         Inl (ValueError ''must have a test dataset.'') \<and>
      run_result (evaluate_dbir_for_category ext cat task bg sid nw pm g) \<noteq>
         Inl (ValueError ''Image size should be set in the dataset''))"
proof (cases "datasets_test ds")
  case None
  then show ?thesis
    by (simp add: evaluate_dbir_for_category_def a d run_result_def run_events_def)
next
  case td: (Some td)
  show ?thesis
  proof (cases "dataloaders_test dl")
    case None
    then show ?thesis
      by (simp add: evaluate_dbir_for_category_def a d td run_result_def run_events_def)
  next
    case tl: (Some tl)
    show ?thesis
    proof (cases "all_source_cameras_of ext task td nw")
      case (Inl e)
      from all_source_cameras_of_error[OF Inl] show ?thesis
        by (simp add: evaluate_dbir_for_category_def a d td tl Inl run_result_def
            run_events_def)
    next
      case cams: (Inr cams)
      show ?thesis
      proof (cases "image_width td")
        case None
        then show ?thesis
          by (simp add: evaluate_dbir_for_category_def a d td tl cams run_result_def
              run_events_def)
      next
        case (Some w)
        have "run_result (evaluate_dbir_for_category ext cat task bg sid nw pm g) \<noteq>
                Inl (ValueError ''must have a test dataset.'') \<and>
              run_result (evaluate_dbir_for_category ext cat task bg sid nw pm g) \<noteq>
                Inl (ValueError ''Image size should be set in the dataset'')"
          by (auto simp: evaluate_dbir_for_category_def a d td tl cams Some run_result_def
              Let_def split: prod.splits sum.splits option.splits dest: eval_loop_error)
        then show ?thesis by (simp add: td tl Some)
      qed
    qed
  qed
qed

theorem evaluate_value_errors_witness:
  "dataset_map_provider_args (example_externals_on (Some (example_dataset None))) ''apple''
     MULTI_SEQUENCE None None =
     Inr \<lparr>category = ''apple'', dataset_root = ''/data/co3d'', assert_single_seq = False,
          task_str = ''multisequence'', test_on_train = False, load_point_clouds = True,
          test_restrict_sequence_id = - 1, path_manager = None\<rparr> \<and>
   get_datasets_and_dataloaders (example_externals_on (Some (example_dataset None)))
     \<lparr>category = ''apple'', dataset_root = ''/data/co3d'', assert_single_seq = False,
      task_str = ''multisequence'', test_on_train = False, load_point_clouds = True,
      test_restrict_sequence_id = - 1, path_manager = None\<rparr>
     (manual_seed (example_externals_on (Some (example_dataset None))) 42) =
     ((\<lparr>datasets_test = Some (example_dataset None)\<rparr>,
       \<lparr>dataloaders_test = Some example_loader\<rparr>), 43) \<and>
   run_result (evaluate_dbir_for_category (example_externals_on (Some (example_dataset None)))
     ''apple'' MULTI_SEQUENCE default_bg_color None 16 None 0) =
     Inl (ValueError ''Image size should be set in the dataset'') \<and>
   run_events (evaluate_dbir_for_category (example_externals_on (Some (example_dataset None)))
     ''apple'' MULTI_SEQUENCE default_bg_color None 16 None 0) =
     [Manual_seed 42,
      DataSource_init
        \<lparr>category = ''apple'', dataset_root = ''/data/co3d'', assert_single_seq = False,
         task_str = ''multisequence'', test_on_train = False, load_point_clouds = True,
         test_restrict_sequence_id = - 1, path_manager = None\<rparr>,
      Get_datasets_and_dataloaders]"
proof -
  let ?E = "example_externals_on (Some (example_dataset None))"
  let ?A = "\<lparr>category = ''apple'', dataset_root = ''/data/co3d'', assert_single_seq = False,
          task_str = ''multisequence'', test_on_train = False, load_point_clouds = True,
          test_restrict_sequence_id = - 1, path_manager = None\<rparr>"
  have a: "dataset_map_provider_args ?E ''apple'' MULTI_SEQUENCE None None = Inr ?A"
    by (simp add: dataset_map_provider_args_def example_fields)
  have d: "get_datasets_and_dataloaders ?E ?A (manual_seed ?E 42) =
     ((\<lparr>datasets_test = Some (example_dataset None)\<rparr>,
       \<lparr>dataloaders_test = Some example_loader\<rparr>), 43)"
    by (simp add: example_fields)
  have c: "all_source_cameras_of ?E MULTI_SEQUENCE (example_dataset None) 16 = Inr None"
    by (simp add: all_source_cameras_of_def)
  have w: "image_width (example_dataset None) = None"
    by (simp add: example_dataset_fields)
  from evaluate_value_errors[OF a d, of default_bg_color 16 0] c w
  show ?thesis using a d by simp
qed

text \<open>
  Claim C3 as stated fails: for the single-sequence task, a test dataset without frames
  and without an image width makes line 130 raise \<open>IndexError\<close> before the image width is
  looked at, so no \<open>ValueError\<close> is raised although \<open>image_width\<close> is \<open>None\<close>.
\<close>

theorem evaluate_value_error_counterexample:
  "datasets_test (fst (fst (get_datasets_and_dataloaders
      (example_externals_on (Some empty_dataset))
      \<lparr>category = ''apple'', dataset_root = ''/data/co3d'', assert_single_seq = True,
       task_str = ''singlesequence'', test_on_train = False, load_point_clouds = True,
       test_restrict_sequence_id = 0, path_manager = None\<rparr> 42))) = Some empty_dataset \<and>
   image_width empty_dataset = None \<and>
   run_result (evaluate_dbir_for_category (example_externals_on (Some empty_dataset))
     ''apple'' SINGLE_SEQUENCE default_bg_color (Some 0) 16 None 0) =
     Inl (IndexError ''list index out of range'')"
  by (simp add: example_fields empty_dataset_def evaluate_dbir_for_category_def
      dataset_map_provider_args_def all_source_cameras_of_def run_result_def)

section \<open>Auxiliary facts on \<open>main\<close>\<close>

lemma batch_events_not_main:
  "list_all is_batch_event evs \<Longrightarrow> filter is_main_event evs = []"
  by (induction evs) (auto elim: is_batch_event.elims)

lemma evaluate_not_main:
  "evaluate_dbir_for_category ext cat task bg sid nw pm g0 = (evs, g, out) \<Longrightarrow>
   filter is_main_event evs = []"
  unfolding evaluate_dbir_for_category_def Let_def
  by (auto split: sum.splits prod.splits option.splits
      dest!: eval_loop_batch_events batch_events_not_main)

lemma print_aggregate_results_success:
  "map_of trs task = Some rs \<Longrightarrow>
   print_aggregate_results ext task trs =
     Inr [Aggregate rs, Print '''',
          Print (''Aggregate results for task='' @ Task_format ext task @ '':''),
          Pretty_print (aggregate_nvs_results ext rs), Print '''']"
  by (simp add: print_aggregate_results_def)

lemma sequence_loop_run:
  assumes "map_of trs task = Some rs0"
    and "sequence_loop ext task cat ids (tr, g, trs) = (tr', g', out)"
  shows "\<exists>part rs.
           filter is_main_event tr' = filter is_main_event tr @ part \<and>
           length rs = length ids \<and>
           prefix part (expected_category_events task cat ids rs) \<and>
           (\<forall>trs'. out = Inr trs' \<longrightarrow>
              part = expected_category_events task cat ids rs \<and>
              trs' = AList.update task (rs0 @ rs) trs)"
  using assms
proof (induction ids arbitrary: tr g trs rs0)
  case Nil
  then show ?case by (auto simp: AList.update_triv intro!: exI[of _ "[]"])
next
  case (Cons sid ids)
  obtain evs g1 res where
    ev: "evaluate_dbir_for_category ext cat task default_bg_color sid default_num_workers None g
           = (evs, g1, res)"
    by (metis prod.collapse)
  note nm = evaluate_not_main[OF ev]
  show ?case
  proof (cases res)
    case (Inl e)
    with Cons.prems(2) ev have
      t: "tr' = tr @ [Call_evaluate cat task sid] @ evs" and o: "out = Inl e"
      by simp_all
    show ?thesis
      by (rule exI[of _ "[Call_evaluate cat task sid]"],
          rule exI[of _ "replicate (Suc (length ids)) undefined"])
         (simp add: t o nm)
  next
    case (Inr r)
    let ?tr1 = "tr @ [Call_evaluate cat task sid] @ evs @
                  [Return_evaluate r, Print '''',
                   Print (results_header (Task_format ext task) cat sid),
                   Pretty_print r, Print '''']"
    from Cons.prems ev Inr have
      rest: "sequence_loop ext task cat ids
               (?tr1, g1, AList.update task (rs0 @ [r]) trs) = (tr', g', out)"
      by (simp add: Let_def)
    have m: "map_of (AList.update task (rs0 @ [r]) trs) task = Some (rs0 @ [r])"
      by (simp add: AList.update_conv')
    from Cons.IH[OF m rest] obtain part2 rs2 where
      p: "filter is_main_event tr' = filter is_main_event ?tr1 @ part2"
         "length rs2 = length ids"
         "prefix part2 (expected_category_events task cat ids rs2)"
         "\<forall>trs'. out = Inr trs' \<longrightarrow>
              part2 = expected_category_events task cat ids rs2 \<and>
              trs' = AList.update task ((rs0 @ [r]) @ rs2) (AList.update task (rs0 @ [r]) trs)"
      by blast
    show ?thesis
      by (rule exI[of _ "[Call_evaluate cat task sid, Return_evaluate r, Pretty_print r] @ part2"],
          rule exI[of _ "r # rs2"])
         (use p in \<open>simp add: nm\<close>)
  qed
qed

lemma category_loop_run:
  assumes "map_of trs task = Some rs0"
    and "category_loop ext task cats (tr, g, trs) = (tr', g', out)"
  shows "\<exists>part groups.
           filter is_main_event tr' = filter is_main_event tr @ part \<and>
           length groups = length cats \<and>
           list_all (\<lambda>rs. length rs = (if task = SINGLE_SEQUENCE then 2 else 1)) groups \<and>
           prefix part
             (expected_task_events (aggregate_nvs_results ext) task
                (if task = SINGLE_SEQUENCE then [Some 0, Some 1] else [None]) rs0 cats groups) \<and>
           (\<forall>trs'. out = Inr trs' \<longrightarrow>
              part = expected_task_events (aggregate_nvs_results ext) task
                (if task = SINGLE_SEQUENCE then [Some 0, Some 1] else [None]) rs0 cats groups \<and>
              trs' = AList.update task (rs0 @ concat groups) trs)"
  using assms
proof (induction cats arbitrary: tr g trs rs0)
  case Nil
  then show ?case
    by (auto simp: AList.update_triv intro!: exI[of _ "[]"])
next
  case (Cons cat cats)
  let ?ids = "if task = SINGLE_SEQUENCE then [Some 0, Some (1::int)] else [None]"
  let ?k = "if task = SINGLE_SEQUENCE then 2 else (1::nat)"
  obtain tr1 g1 out1 where
    s: "sequence_loop ext task cat ?ids (tr, g, trs) = (tr1, g1, out1)"
    by (metis prod.collapse)
  from sequence_loop_run[OF Cons.prems(1) s] obtain part1 rs1 where
    p1: "filter is_main_event tr1 = filter is_main_event tr @ part1"
        "length rs1 = length ?ids"
        "prefix part1 (expected_category_events task cat ?ids rs1)"
        "\<forall>trs'. out1 = Inr trs' \<longrightarrow>
              part1 = expected_category_events task cat ?ids rs1 \<and>
              trs' = AList.update task (rs0 @ rs1) trs"
    by blast
  have k1: "length rs1 = ?k" using p1(2) by simp
  show ?case
  proof (cases out1)
    case (Inl e)
    with Cons.prems(2) s have t: "tr' = tr1" and o: "out = Inl e"
      by simp_all
    let ?groups = "rs1 # replicate (length cats) (replicate ?k undefined)"
    have sh: "list_all (\<lambda>rs. length rs = ?k) ?groups"
      using k1 by (simp add: list_all_iff)
    have "prefix part1
            (expected_task_events (aggregate_nvs_results ext) task ?ids rs0 (cat # cats) ?groups)"
      using p1(3) by simp
    with sh show ?thesis
      by (intro exI[of _ part1] exI[of _ ?groups]) (simp add: t o p1(1))
  next
    case (Inr trs1)
    with p1(4) have
      e1: "part1 = expected_category_events task cat ?ids rs1" and
      u1: "trs1 = AList.update task (rs0 @ rs1) trs"
      by simp_all
    have m: "map_of trs1 task = Some (rs0 @ rs1)"
      by (simp add: u1 AList.update_conv')
    let ?evs = "[Aggregate (rs0 @ rs1), Print '''',
          Print (''Aggregate results for task='' @ Task_format ext task @ '':''),
          Pretty_print (aggregate_nvs_results ext (rs0 @ rs1)), Print '''']"
    from Cons.prems(2) s Inr print_aggregate_results_success[OF m, of ext] have
      rest: "category_loop ext task cats (tr1 @ ?evs, g1, trs1) = (tr', g', out)"
      by simp
    from Cons.IH[OF m rest] obtain part2 groups2 where
      p2: "filter is_main_event tr' = filter is_main_event (tr1 @ ?evs) @ part2"
          "length groups2 = length cats"
          "list_all (\<lambda>rs. length rs = ?k) groups2"
          "prefix part2
             (expected_task_events (aggregate_nvs_results ext) task ?ids (rs0 @ rs1) cats groups2)"
          "\<forall>trs'. out = Inr trs' \<longrightarrow>
              part2 = expected_task_events (aggregate_nvs_results ext) task ?ids
                        (rs0 @ rs1) cats groups2 \<and>
              trs' = AList.update task ((rs0 @ rs1) @ concat groups2) trs1"
      by blast
    show ?thesis
      by (intro exI[of _ "part1 @ [Aggregate (rs0 @ rs1),
                Pretty_print (aggregate_nvs_results ext (rs0 @ rs1))] @ part2"]
             exI[of _ "rs1 # groups2"])
         (use p2 k1 in \<open>simp add: p1(1) e1 u1\<close>)
  qed
qed

lemma main_run:
  assumes "main ext g = (tr, g', out)"
  shows "\<exists>groups1 groups2.
           length groups1 = length (take 20 (CO3D_CATEGORIES ext)) \<and>
           list_all (\<lambda>rs. length rs = 2) groups1 \<and>
           length groups2 = length (take 10 (CO3D_CATEGORIES ext)) \<and>
           list_all (\<lambda>rs. length rs = 1) groups2 \<and>
           prefix (filter is_main_event tr)
             (expected_main_events (aggregate_nvs_results ext) (CO3D_CATEGORIES ext)
                groups1 groups2) \<and>
           (\<forall>trs. out = Inr trs \<longrightarrow>
              filter is_main_event tr =
                expected_main_events (aggregate_nvs_results ext) (CO3D_CATEGORIES ext)
                  groups1 groups2 \<and>
              trs = [(SINGLE_SEQUENCE, concat groups1), (MULTI_SEQUENCE, concat groups2)])"
proof -
  let ?cats = "CO3D_CATEGORIES ext"
  let ?agg = "aggregate_nvs_results ext"
  obtain tr1 g1 out1 where
    c1: "category_loop ext SINGLE_SEQUENCE (take 20 ?cats)
           ([], g, [(SINGLE_SEQUENCE, [])]) = (tr1, g1, out1)"
    by (metis prod.collapse)
  have m1: "map_of [(SINGLE_SEQUENCE, [])] SINGLE_SEQUENCE = Some []" by simp
  from category_loop_run[OF m1 c1] obtain part1 groups1 where
    p1: "filter is_main_event tr1 = part1"
        "length groups1 = length (take 20 ?cats)"
        "list_all (\<lambda>rs. length rs = 2) groups1"
        "prefix part1
           (expected_task_events ?agg SINGLE_SEQUENCE [Some 0, Some 1] [] (take 20 ?cats) groups1)"
        "\<forall>trs'. out1 = Inr trs' \<longrightarrow>
           part1 = expected_task_events ?agg SINGLE_SEQUENCE [Some 0, Some 1] []
                     (take 20 ?cats) groups1 \<and>
           trs' = [(SINGLE_SEQUENCE, concat groups1)]"
    by auto
  show ?thesis
  proof (cases out1)
    case (Inl e)
    with assms c1 have t: "tr = tr1" and o: "out = Inl e"
      by (simp_all add: main_def)
    let ?groups2 = "replicate (length (take 10 ?cats)) [undefined]"
    have "list_all (\<lambda>rs. length rs = 1) ?groups2" by (simp add: list_all_iff)
    moreover have "length ?groups2 = length (take 10 ?cats)" by simp
    moreover have "prefix (filter is_main_event tr)
             (expected_main_events ?agg ?cats groups1 ?groups2)"
      using p1(4) by (simp add: t p1(1) expected_main_events_def)
    ultimately show ?thesis using p1(2,3) o by blast
  next
    case (Inr trs1)
    with p1(5) have
      e1: "part1 = expected_task_events ?agg SINGLE_SEQUENCE [Some 0, Some 1] []
                     (take 20 ?cats) groups1" and
      u1: "trs1 = [(SINGLE_SEQUENCE, concat groups1)]"
      by simp_all
    obtain tr2 g2 out2 where
      c2: "category_loop ext MULTI_SEQUENCE (take 10 ?cats)
             (tr1, g1, AList.update MULTI_SEQUENCE [] trs1) = (tr2, g2, out2)"
      by (metis prod.collapse)
    have m2: "map_of (AList.update MULTI_SEQUENCE [] trs1) MULTI_SEQUENCE = Some []"
      by (simp add: AList.update_conv')
    from category_loop_run[OF m2 c2] obtain part2 groups2 where
      p2: "filter is_main_event tr2 = filter is_main_event tr1 @ part2"
          "length groups2 = length (take 10 ?cats)"
          "list_all (\<lambda>rs. length rs = 1) groups2"
          "prefix part2
             (expected_task_events ?agg MULTI_SEQUENCE [None] [] (take 10 ?cats) groups2)"
          "\<forall>trs'. out2 = Inr trs' \<longrightarrow>
             part2 = expected_task_events ?agg MULTI_SEQUENCE [None] [] (take 10 ?cats) groups2 \<and>
             trs' = [(SINGLE_SEQUENCE, concat groups1), (MULTI_SEQUENCE, concat groups2)]"
      by (auto simp: u1)
    show ?thesis
    proof (cases out2)
      case (Inl e)
      with assms c1 c2 Inr have t: "tr = tr2" and o: "out = Inl e"
        by (simp_all add: main_def)
      have "prefix (filter is_main_event tr)
             (expected_main_events ?agg ?cats groups1 groups2)"
        using p2(4) by (simp add: t p2(1) p1(1) e1 expected_main_events_def)
      then show ?thesis using p1(2,3) p2(2,3) o by blast
    next
      case trs2: (Inr trs2)
      with p2(5) have
        e2: "part2 = expected_task_events ?agg MULTI_SEQUENCE [None] [] (take 10 ?cats) groups2"
        and u2: "trs2 = [(SINGLE_SEQUENCE, concat groups1), (MULTI_SEQUENCE, concat groups2)]"
        by simp_all
      from assms c1 c2 Inr trs2 have
        "tr = tr2 @
           [Aggregate (concat groups1), Print '''',
            Print (''Aggregate results for task='' @ Task_format ext SINGLE_SEQUENCE @ '':''),
            Pretty_print (?agg (concat groups1)), Print '''',
            Aggregate (concat groups2), Print '''',
            Print (''Aggregate results for task='' @ Task_format ext MULTI_SEQUENCE @ '':''),
            Pretty_print (?agg (concat groups2)), Print '''']"
        and o: "out = Inr trs2"
        by (simp_all add: main_def u2 print_aggregate_results_def)
      then have "filter is_main_event tr = expected_main_events ?agg ?cats groups1 groups2"
        by (simp add: p2(1) p1(1) e1 e2 expected_main_events_def)
      then show ?thesis using p1(2,3) p2(2,3) o u2 by auto
    qed
  qed
qed

lemma call_of_main_events:
  "events_of call_of (filter is_main_event tr) = events_of call_of tr"
proof (induction tr)
  case Nil
  then show ?case by simp
next
  case (Cons e tr)
  then show ?case by (cases e) simp_all
qed

lemma return_of_main_events:
  "events_of return_of (filter is_main_event tr) = events_of return_of tr"
proof (induction tr)
  case Nil
  then show ?case by simp
next
  case (Cons e tr)
  then show ?case by (cases e) simp_all
qed

lemma expected_category_events_calls:
  "length rs = length ids \<Longrightarrow>
   events_of call_of (expected_category_events task cat ids rs) =
     map (\<lambda>s. (cat, task, s)) ids \<and>
   events_of return_of (expected_category_events task cat ids rs) = rs"
  by (induction rs ids rule: list_induct2) simp_all

lemma expected_task_events_calls:
  "length groups = length cats \<Longrightarrow> list_all (\<lambda>rs. length rs = length ids) groups \<Longrightarrow>
   events_of call_of (expected_task_events agg task ids done cats groups) =
     concat (map (\<lambda>c. map (\<lambda>s. (c, task, s)) ids) cats) \<and>
   events_of return_of (expected_task_events agg task ids done cats groups) = concat groups"
proof (induction groups cats arbitrary: "done" rule: list_induct2)
  case Nil
  then show ?case by simp
next
  case (Cons rs groups cat cats)
  then show ?case
    using expected_category_events_calls[of rs ids task cat] by simp
qed

lemma expected_main_events_calls:
  assumes "length groups1 = length (take 20 cats)" "list_all (\<lambda>rs. length rs = 2) groups1"
    and "length groups2 = length (take 10 cats)" "list_all (\<lambda>rs. length rs = 1) groups2"
  shows "events_of call_of (expected_main_events agg cats groups1 groups2) = expected_calls cats"
    and "events_of return_of (expected_main_events agg cats groups1 groups2) =
           concat groups1 @ concat groups2"
proof -
  have a: "list_all (\<lambda>rs. length rs = length [Some 0, Some (1::int)]) groups1"
    using assms(2) by (simp add: numeral_2_eq_2)
  have b: "list_all (\<lambda>rs. length rs = length [None :: int option]) groups2"
    using assms(4) by simp
  note t1 = expected_task_events_calls[OF assms(1) a, of agg SINGLE_SEQUENCE "[]"]
  note t2 = expected_task_events_calls[OF assms(3) b, of agg MULTI_SEQUENCE "[]"]
  have c: "concat (map (\<lambda>c. [(c, MULTI_SEQUENCE, None :: int option)]) (take 10 cats)) =
           map (\<lambda>c. (c, MULTI_SEQUENCE, None)) (take 10 cats)"
    by (induction "take 10 cats") auto
  show "events_of call_of (expected_main_events agg cats groups1 groups2) = expected_calls cats"
    by (simp add: t1 t2 c expected_main_events_def expected_calls_def)
  show "events_of return_of (expected_main_events agg cats groups1 groups2) =
           concat groups1 @ concat groups2"
    by (simp add: t1 t2 expected_main_events_def)
qed

lemma length_concat_uniform:
  "list_all (\<lambda>rs. length rs = k) groups \<Longrightarrow> length (concat groups) = k * length groups"
  by (induction groups) auto

lemma main_run_cases:
  assumes "main_task_results (main ext g) = Inr task_results"
  shows "\<exists>g'. main ext g = (main_events (main ext g), g', Inr task_results)"
  using assms
  by (cases "main ext g") (auto simp: main_task_results_def main_events_def)

section \<open>The calls of \<open>main\<close>\<close>

text \<open>
  Claim C2.  When \<open>main\<close> completes, the calls of \<open>evaluate_dbir_for_category\<close> it has
  made are, in this order: for the single-sequence task, each of the first 20 categories
  with sequence id 0 and then 1; then for the multi-sequence task, each of the first 10
  categories with no sequence id.  \<open>task_results\<close> has the two tasks as keys, in that
  order, and the results the calls returned, in the order of the calls, are the list of
  the first task followed by the list of the second.
\<close>

theorem main_calls_and_results:
  assumes "main_task_results (main ext g) = Inr task_results"
  shows "events_of call_of (main_events (main ext g)) = expected_calls (CO3D_CATEGORIES ext) \<and>
         (\<exists>rs1 rs2.
            task_results = [(SINGLE_SEQUENCE, rs1), (MULTI_SEQUENCE, rs2)] \<and>
            length rs1 = 2 * length (take 20 (CO3D_CATEGORIES ext)) \<and>
            length rs2 = length (take 10 (CO3D_CATEGORIES ext)) \<and>
            events_of return_of (main_events (main ext g)) = rs1 @ rs2)"
proof -
  let ?cats = "CO3D_CATEGORIES ext"
  from main_run_cases[OF assms] obtain g' where
    "main ext g = (main_events (main ext g), g', Inr task_results)" ..
  from main_run[OF this] obtain groups1 groups2 where
    m: "length groups1 = length (take 20 ?cats)"
       "list_all (\<lambda>rs. length rs = 2) groups1"
       "length groups2 = length (take 10 ?cats)"
       "list_all (\<lambda>rs. length rs = 1) groups2"
       "filter is_main_event (main_events (main ext g)) =
          expected_main_events (aggregate_nvs_results ext) ?cats groups1 groups2"
       "task_results = [(SINGLE_SEQUENCE, concat groups1), (MULTI_SEQUENCE, concat groups2)]"
    by auto
  have c: "events_of call_of (main_events (main ext g)) = expected_calls ?cats"
    unfolding call_of_main_events[of "main_events (main ext g)", symmetric] m(5)
    by (rule expected_main_events_calls(1)[OF m(1-4)])
  have r: "events_of return_of (main_events (main ext g)) = concat groups1 @ concat groups2"
    unfolding return_of_main_events[of "main_events (main ext g)", symmetric] m(5)
    by (rule expected_main_events_calls(2)[OF m(1-4)])
  have "length (concat groups1) = 2 * length (take 20 ?cats)"
    using length_concat_uniform[OF m(2)] m(1) by simp
  moreover have "length (concat groups2) = length (take 10 ?cats)"
    using length_concat_uniform[OF m(4)] m(3) by simp
  ultimately show ?thesis using m(6) c r by blast
qed

section \<open>The small runs of \<open>main\<close>\<close>

lemma example_run_tail:
  "snd (evaluate_dbir_for_category example_externals ''apple'' SINGLE_SEQUENCE
     default_bg_color (Some i) default_num_workers None g) = (47, Inr 92)"
  "snd (evaluate_dbir_for_category example_externals ''apple'' MULTI_SEQUENCE
     default_bg_color None default_num_workers None g) = (47, Inr 92)"
  by (simp_all add: evaluate_dbir_for_category_def dataset_map_provider_args_def
      all_source_cameras_of_def example_cameras example_loop example_externals_def Let_def
      example_fields example_dataset_fields)

lemma example_main_fields:
  "CO3D_CATEGORIES example_externals = [''apple'']"
  "Task_format example_externals SINGLE_SEQUENCE = ''Task.SINGLE_SEQUENCE''"
  "Task_format example_externals MULTI_SEQUENCE = ''Task.MULTI_SEQUENCE''"
  "aggregate_nvs_results example_externals = sum_list"
  by (simp_all add: example_externals_def example_fields)

lemma example_main:
  "main_task_results (main example_externals 0) =
     Inr [(SINGLE_SEQUENCE, [92, 92]), (MULTI_SEQUENCE, [92])]"
  by (simp add: main_task_results_def main_def case_prod_beta example_run_tail Let_def
      print_aggregate_results_def example_main_fields)

lemma example2_fields:
  "environ example_main_externals ''CO3D_DATASET_ROOT'' = Some ''/data/co3d''"
  "CO3D_CATEGORIES example_main_externals = [''apple'', ''ball'']"
  "Task_value example_main_externals SINGLE_SEQUENCE = ''singlesequence''"
  "Task_value example_main_externals MULTI_SEQUENCE = ''multisequence''"
  "Task_format example_main_externals SINGLE_SEQUENCE = ''Task.SINGLE_SEQUENCE''"
  "Task_format example_main_externals MULTI_SEQUENCE = ''Task.MULTI_SEQUENCE''"
  "manual_seed example_main_externals seed = nat seed"
  "get_datasets_and_dataloaders example_main_externals args g =
     ((\<lparr>datasets_test = Some (example_dataset (Some 800))\<rparr>,
       \<lparr>dataloaders_test = Some example_loader\<rparr>),
      Suc g + length (category args) + nat (test_restrict_sequence_id args + 1))"
  "is_known_frame example_main_externals = map (\<lambda>t. t = ''test_known'')"
  "dataclass_to_cuda example_main_externals fd = fd"
  "model_forward example_main_externals m fd g = ([''implicitron_render'' \<mapsto> length fd], Suc g)"
  "eval_batch example_main_externals fd p c l cams g = (p + g, Suc g)"
  "summarize_nvs_eval_results example_main_externals rs t = (0, [''results'' \<mapsto> sum_list rs])"
  "aggregate_nvs_results example_main_externals = sum_list"
  by (simp_all add: example_main_externals_def example_externals_def example_externals_on_def)

lemma example2_cameras:
  "get_all_source_cameras example_main_externals (example_dataset w) ''seq_a'' nw = Inr [10, 12]"
  unfolding get_all_source_cameras_def Let_def example_dataset_fields example_DataLoader
    example2_fields
  using example_known by simp

lemma example2_loop_tail:
  "snd (eval_loop example_main_externals m l bg cams example_loader [] g) =
     (g + 4, Inr [g + 2, g + 4])"
  by (simp add: example_loader_def example2_fields Let_def)

lemma example2_run_tail:
  "snd (evaluate_dbir_for_category example_main_externals c SINGLE_SEQUENCE
     default_bg_color (Some i) default_num_workers None g) =
     (47 + length c + nat (i + 1), Inr (92 + 2 * length c + 2 * nat (i + 1)))"
  "snd (evaluate_dbir_for_category example_main_externals c MULTI_SEQUENCE
     default_bg_color None default_num_workers None g) =
     (47 + length c, Inr (92 + 2 * length c))"
  by (simp_all add: evaluate_dbir_for_category_def dataset_map_provider_args_def
      all_source_cameras_of_def example2_cameras example2_loop_tail case_prod_beta Let_def
      example2_fields example_dataset_fields split: sum.splits)

lemma example2_main:
  "main_task_results (main example_main_externals 0) =
     Inr [(SINGLE_SEQUENCE, [104, 106, 102, 104]), (MULTI_SEQUENCE, [102, 100])]"
  by (simp add: main_task_results_def main_def case_prod_beta example2_run_tail Let_def
      print_aggregate_results_def example2_fields)

theorem main_calls_and_results_witness:
  "main_task_results (main example_externals 0) =
     Inr [(SINGLE_SEQUENCE, [92, 92]), (MULTI_SEQUENCE, [92])] \<and>
   events_of call_of (main_events (main example_externals 0)) =
     [(''apple'', SINGLE_SEQUENCE, Some 0), (''apple'', SINGLE_SEQUENCE, Some 1),
      (''apple'', MULTI_SEQUENCE, None)] \<and>
   events_of return_of (main_events (main example_externals 0)) = [92, 92, 92]"
  using main_calls_and_results[OF example_main] example_main
  by (auto simp: expected_calls_def example_main_fields)

section \<open>What \<open>main\<close> prints\<close>

text \<open>
  Claim C6.  Take of the events of a run of \<open>main\<close> the calls of
  \<open>evaluate_dbir_for_category\<close>, the results they return, the metrics handed to
  \<open>pretty_print_nvs_metrics\<close> and the lists handed to \<open>aggregate_nvs_results\<close>, in the
  order in which they happen.  For the results of each task grouped by category (two per
  category for the single-sequence task, one for the multi-sequence task), these events
  are: for each task and each of its categories, every call followed by its result and
  right after it by the print of that result; after the calls of the category, and
  before those of the next one, the aggregate of all the results of the task so far
  followed by its print; and, after both tasks, the aggregate of all the results of the
  first task and its print, then those of the second.  A run that completes shows exactly
  this sequence; a run that an exception ends shows a beginning of it.
\<close>

theorem main_prints:
  "\<exists>groups1 groups2.
     length groups1 = length (take 20 (CO3D_CATEGORIES ext)) \<and>
     list_all (\<lambda>rs. length rs = 2) groups1 \<and>
     length groups2 = length (take 10 (CO3D_CATEGORIES ext)) \<and>
     list_all (\<lambda>rs. length rs = 1) groups2 \<and>
     prefix (filter is_main_event (main_events (main ext g)))
       (expected_main_events (aggregate_nvs_results ext) (CO3D_CATEGORIES ext)
          groups1 groups2) \<and>
     (\<forall>task_results. main_task_results (main ext g) = Inr task_results \<longrightarrow>
        filter is_main_event (main_events (main ext g)) =
          expected_main_events (aggregate_nvs_results ext) (CO3D_CATEGORIES ext)
            groups1 groups2 \<and>
        task_results = [(SINGLE_SEQUENCE, concat groups1), (MULTI_SEQUENCE, concat groups2)])"
proof -
  obtain tr g' out where m: "main ext g = (tr, g', out)"
    by (metis prod.collapse)
  from main_run[OF m] show ?thesis
    by (simp add: m main_events_def main_task_results_def)
qed

theorem main_prints_witness:
  "main_task_results (main example_main_externals 0) =
     Inr [(SINGLE_SEQUENCE, [104, 106, 102, 104]), (MULTI_SEQUENCE, [102, 100])] \<and>
   filter is_main_event (main_events (main example_main_externals 0)) =
     [Call_evaluate ''apple'' SINGLE_SEQUENCE (Some 0), Return_evaluate 104, Pretty_print 104,
      Call_evaluate ''apple'' SINGLE_SEQUENCE (Some 1), Return_evaluate 106, Pretty_print 106,
      Aggregate [104, 106], Pretty_print 210,
      Call_evaluate ''ball'' SINGLE_SEQUENCE (Some 0), Return_evaluate 102, Pretty_print 102,
      Call_evaluate ''ball'' SINGLE_SEQUENCE (Some 1), Return_evaluate 104, Pretty_print 104,
      Aggregate [104, 106, 102, 104], Pretty_print 416,
      Call_evaluate ''apple'' MULTI_SEQUENCE None, Return_evaluate 102, Pretty_print 102,
      Aggregate [102], Pretty_print 102,
      Call_evaluate ''ball'' MULTI_SEQUENCE None, Return_evaluate 100, Pretty_print 100,
      Aggregate [102, 100], Pretty_print 202,
      Aggregate [104, 106, 102, 104], Pretty_print 416,
      Aggregate [102, 100], Pretty_print 202]"
proof -
  from main_prints[of example_main_externals 0] example2_main
  obtain groups1 groups2 :: "nat list list" where
    m: "length groups1 = length (take 20 (CO3D_CATEGORIES example_main_externals))"
       "list_all (\<lambda>rs. length rs = 2) groups1"
       "length groups2 = length (take 10 (CO3D_CATEGORIES example_main_externals))"
       "list_all (\<lambda>rs. length rs = 1) groups2"
       "filter is_main_event (main_events (main example_main_externals 0)) =
          expected_main_events (aggregate_nvs_results example_main_externals)
            (CO3D_CATEGORIES example_main_externals) groups1 groups2"
       "[(SINGLE_SEQUENCE, [104, 106, 102, 104]), (MULTI_SEQUENCE, [102, 100])] =
          [(SINGLE_SEQUENCE, concat groups1), (MULTI_SEQUENCE, concat groups2)]"
    by auto
  from m(1) obtain a b where g1: "groups1 = [a, b]"
    by (auto simp: example2_fields length_Suc_conv)
  from m(3) obtain c d where g2: "groups2 = [c, d]"
    by (auto simp: example2_fields length_Suc_conv)
  from m(2) g1 have la: "length a = 2" "length b = 2" by simp_all
  from m(4) g2 have lc: "length c = 1" "length d = 1" by simp_all
  from m(6) have cc: "a @ b = [104, 106, 102, 104]" "c @ d = [102, 100]"
    by (simp_all add: g1 g2)
  from cc(1) la have ab: "a = [104, 106]" "b = [102, 104]"
    by (simp_all add: append_eq_conv_conj)
  from cc(2) lc have cd: "c = [102]" "d = [100]"
    by (simp_all add: append_eq_conv_conj)
  show ?thesis
    using m(5) example2_main
    by (simp add: g1 g2 ab cd example2_fields expected_main_events_def)
qed

end
